theory Spec2Isabelle
  imports Complex_Main "HOL-Library.Log_Nat"
begin

section \<open>TodoApp: task dialog, reminders, data context and reports\<close>

text \<open>
  A shallow embedding of the parts of the TodoApp client that carry logic:
  \<^item> \<^verbatim>\<open>src/services/notifications.ts\<close> (\<^verbatim>\<open>NotificationsService\<close>),
  \<^item> \<^verbatim>\<open>src/components/TaskDialog.tsx\<close> in its three variants: the first one without
    reminders, the one that reconciles the pending reminders of a saved task, and the
    final one with persistent notification preferences,
  \<^item> \<^verbatim>\<open>src/contexts/DataContext.tsx\<close> (the operations over the remote tables),
  \<^item> \<^verbatim>\<open>src/screens/ReportsScreen.tsx\<close> (the completion statistics).

  Conventions. A JavaScript string is the list of its UTF-16 code units. In the dialog
  and in the rows of the tables, a \<^verbatim>\<open>Date\<close> is its time value, an integer number of
  milliseconds, and an ISO date string is the time value it denotes; these dates come
  from the date picker and from the table, and are valid. The notification service
  computes a date of its own from two arguments: there a \<^verbatim>\<open>Date\<close> may be invalid and
  the arithmetic is that of doubles, as is the quotient computed by the reports screen.
  \<^verbatim>\<open>undefined\<close> and \<^verbatim>\<open>null\<close> are \<open>None\<close>. A thrown exception is the \<open>Inl\<close> branch of a
  sum. State held by React hooks, by the remote tables and by the operating system's
  notification scheduler is passed explicitly.
\<close>

subsection \<open>Strings\<close>

type_synonym js_string = "nat list"

definition js :: "string \<Rightarrow> js_string" where
  "js s = map of_char s"

text \<open>The code units that \<^verbatim>\<open>String.prototype.trim\<close> strips (ECMAScript WhiteSpace and
  LineTerminator).\<close>

definition is_js_whitespace :: "nat \<Rightarrow> bool" where
  "is_js_whitespace c \<longleftrightarrow>
     c \<in> {0x9, 0xA, 0xB, 0xC, 0xD, 0x20, 0xA0, 0x1680, 0x2028, 0x2029, 0x202F, 0x205F,
          0x3000, 0xFEFF}
     \<or> (0x2000 \<le> c \<and> c \<le> 0x200A)"

definition trim :: "js_string \<Rightarrow> js_string" where
  "trim s = rev (dropWhile is_js_whitespace (rev (dropWhile is_js_whitespace s)))"

subsection \<open>Lead-time options of the task dialog\<close>

text \<open>\<^verbatim>\<open>differenceInMinutes\<close> of date-fns: the number of full minutes between two dates,
  truncated towards zero.\<close>

definition differenceInMinutes :: "int \<Rightarrow> int \<Rightarrow> int" where
  "differenceInMinutes dateLeft dateRight =
     (let diff = dateLeft - dateRight
      in if 0 \<le> diff then diff div 60000 else - ((- diff) div 60000))"

record notification_option =
  label :: js_string
  val :: int

definition allOptions :: "notification_option list" where
  "allOptions =
     [\<lparr>label = js ''5 min'', val = 5\<rparr>,
      \<lparr>label = js ''15 min'', val = 15\<rparr>,
      \<lparr>label = js ''30 min'', val = 30\<rparr>,
      \<lparr>label = js ''1 or'' @ [0x103], val = 60\<rparr>,
      \<lparr>label = js ''2 ore'', val = 120\<rparr>,
      \<lparr>label = js ''1 zi'', val = 1440\<rparr>]"

text \<open>\<^verbatim>\<open>validNotificationOptions\<close>: \<^verbatim>\<open>!minutesUntilDue\<close> holds for \<^verbatim>\<open>null\<close> and for \<open>0\<close>.\<close>

definition validNotificationOptions :: "int option \<Rightarrow> notification_option list" where
  "validNotificationOptions minutesUntilDue =
     (case minutesUntilDue of
        None \<Rightarrow> allOptions
      | Some m \<Rightarrow>
          if m = 0 \<or> m \<le> 0 then allOptions
          else (let validOptions = filter (\<lambda>opt. val opt < m) allOptions
                in if length validOptions > 0 then validOptions
                   else [\<lparr>label = js ''1 min'', val = 1\<rparr>]))"

subsection \<open>State of the task dialog\<close>

datatype TaskStatus = upcoming | overdue | completed | canceled

text \<open>The hooks of the final \<^verbatim>\<open>TaskDialog\<close>. \<^verbatim>\<open>minutesUntilDue\<close> is memoised on \<^verbatim>\<open>dueDate\<close>:
  it is computed with the clock reading of the render in which \<^verbatim>\<open>dueDate\<close> last changed,
  kept here as \<open>memoNow\<close>.\<close>

record dialog =
  title :: js_string
  description :: js_string
  categoryId :: js_string
  selectedCategoryColor :: js_string
  status :: TaskStatus
  dueDate :: "int option"
  showDatePicker :: bool
  showTimePicker :: bool
  loading :: bool
  tempDate :: int
  enableNotification :: bool
  notificationMinutesBefore :: int
  memoNow :: int

definition minutesUntilDue :: "dialog \<Rightarrow> int option" where
  "minutesUntilDue d =
     (case dueDate d of
        None \<Rightarrow> None
      | Some due \<Rightarrow> Some (differenceInMinutes due (memoNow d)))"

definition isNotificationValid :: "dialog \<Rightarrow> bool" where
  "isNotificationValid d =
     (case dueDate d of
        None \<Rightarrow> False
      | Some due \<Rightarrow>
          (case minutesUntilDue d of
             None \<Rightarrow> False
           | Some m \<Rightarrow> if m = 0 then False else notificationMinutesBefore d < m))"

text \<open>The last element of an array, \<^verbatim>\<open>undefined\<close> when the array is empty.\<close>

definition lastOption :: "notification_option list \<Rightarrow> notification_option option" where
  "lastOption opts = (if opts = [] then None else Some (opts ! (length opts - 1)))"

text \<open>The body of the effect that adjusts the selected lead time.\<close>

definition autoAdjust :: "dialog \<Rightarrow> dialog" where
  "autoAdjust d =
     (case dueDate d of
        None \<Rightarrow> d
      | Some due \<Rightarrow>
          (case minutesUntilDue d of
             None \<Rightarrow> d
           | Some m \<Rightarrow>
               if m > 0 then
                 (if notificationMinutesBefore d \<ge> m then
                    (case lastOption (validNotificationOptions (minutesUntilDue d)) of
                       Some maxValid \<Rightarrow> d\<lparr>notificationMinutesBefore := val maxValid\<rparr>
                     | None \<Rightarrow> d)
                  else d)
               else d))"

subsection \<open>Rows of the remote tables\<close>

record category =
  id :: js_string
  name :: js_string
  color :: js_string
  user_id :: js_string
  created_at :: int
  is_default :: bool

record task =
  id :: js_string
  title :: js_string
  description :: "js_string option"
  status :: TaskStatus
  category_id :: js_string
  user_id :: js_string
  due_date :: "int option"
  created_at :: int
  updated_at :: int
  order_index :: int
  notification_minutes_before :: "int option"
  enable_notification :: "bool option"

text \<open>
  \<^verbatim>\<open>Partial<Task>\<close> and \<^verbatim>\<open>Partial<Category>\<close>: every field may be absent (\<open>None\<close>). A nullable
  column can also be set to \<^verbatim>\<open>null\<close> (\<open>Some None\<close>). A field whose value is \<^verbatim>\<open>undefined\<close>
  is dropped when the request is serialised, so it is absent.
\<close>

record task_updates =
  set_id :: "js_string option"
  set_title :: "js_string option"
  set_description :: "js_string option option"
  set_status :: "TaskStatus option"
  set_category_id :: "js_string option"
  set_user_id :: "js_string option"
  set_due_date :: "int option option"
  set_created_at :: "int option"
  set_updated_at :: "int option"
  set_order_index :: "int option"
  set_notification_minutes_before :: "int option option"
  set_enable_notification :: "bool option option"

record category_updates =
  cset_id :: "js_string option"
  cset_name :: "js_string option"
  cset_color :: "js_string option"
  cset_user_id :: "js_string option"
  cset_created_at :: "int option"
  cset_is_default :: "bool option"

definition orElse :: "'a option \<Rightarrow> 'a \<Rightarrow> 'a" where
  "orElse u old = (case u of None \<Rightarrow> old | Some v \<Rightarrow> v)"

text \<open>What \<^verbatim>\<open>update(updates)\<close> does to one row.\<close>

definition update_task_row :: "task_updates \<Rightarrow> task \<Rightarrow> task" where
  "update_task_row u t =
     \<lparr>task.id = orElse (set_id u) (task.id t),
      title = orElse (set_title u) (task.title t),
      description = orElse (set_description u) (task.description t),
      status = orElse (set_status u) (task.status t),
      category_id = orElse (set_category_id u) (task.category_id t),
      user_id = orElse (set_user_id u) (task.user_id t),
      due_date = orElse (set_due_date u) (task.due_date t),
      created_at = orElse (set_created_at u) (task.created_at t),
      updated_at = orElse (set_updated_at u) (task.updated_at t),
      order_index = orElse (set_order_index u) (task.order_index t),
      notification_minutes_before =
        orElse (set_notification_minutes_before u) (task.notification_minutes_before t),
      enable_notification = orElse (set_enable_notification u) (task.enable_notification t)\<rparr>"

definition update_category_row :: "category_updates \<Rightarrow> category \<Rightarrow> category" where
  "update_category_row u c =
     \<lparr>category.id = orElse (cset_id u) (category.id c),
      name = orElse (cset_name u) (category.name c),
      color = orElse (cset_color u) (category.color c),
      user_id = orElse (cset_user_id u) (category.user_id c),
      created_at = orElse (cset_created_at u) (category.created_at c),
      is_default = orElse (cset_is_default u) (category.is_default c)\<rparr>"

definition no_task_updates :: task_updates where
  "no_task_updates =
     \<lparr>set_id = None, set_title = None, set_description = None, set_status = None,
      set_category_id = None, set_user_id = None, set_due_date = None, set_created_at = None,
      set_updated_at = None, set_order_index = None, set_notification_minutes_before = None,
      set_enable_notification = None\<rparr>"

subsection \<open>The data context\<close>

text \<open>
  The state of \<^verbatim>\<open>DataProvider\<close> (\<open>user\<close> is the id of the signed-in user, \<open>tasks\<close>,
  \<open>categories\<close> and \<open>loading\<close> are its hooks) together with the two tables of the remote
  service, which is outside the repository. The remote service is modelled as a store
  that applies each request in turn; a request that fails leaves the tables unchanged.
  Every reply is an input. Where the code inspects the \<^verbatim>\<open>error\<close> of a reply and throws it,
  the reply is an \<open>exn option\<close> (\<open>None\<close> for success). Where the code reads the \<^verbatim>\<open>data\<close>
  only, the reply is an \<open>outcome\<close>: \<open>Ok\<close> (the request is applied and answers with its
  data), \<open>Failed\<close> (it answers \<^verbatim>\<open>{ data: null, error }\<close>) or \<open>Thrown\<close> (the awaited request
  rejects). Identifiers and timestamps of inserted rows are chosen by the remote service
  and are inputs too.
\<close>

datatype exn = Error js_string | PostgrestError js_string | TypeError

datatype outcome = Ok | Failed | Thrown exn

definition threw :: "outcome \<Rightarrow> bool" where
  "threw r = (case r of Thrown err \<Rightarrow> True | _ \<Rightarrow> False)"

record app =
  user :: "js_string option"
  tasks :: "task list"
  categories :: "category list"
  loading :: bool
  remote_tasks :: "task list"
  remote_categories :: "category list"

text \<open>
  What the remote service decides during one operation: the identifiers and the
  timestamp of the rows it inserts, the replies to the two requests of
  \<^verbatim>\<open>ensureDefaultCategory\<close> and to the two \<^verbatim>\<open>select\<close> requests of \<^verbatim>\<open>loadData\<close>, and the reply
  to each \<^verbatim>\<open>update\<close> request of the loop of \<^verbatim>\<open>deleteCategory\<close> (numbered from \<open>0\<close>).
\<close>

record env =
  fresh_task_id :: js_string
  fresh_category_id :: js_string
  fresh_default_category_id :: js_string
  db_now :: int
  default_select :: outcome
  default_insert :: outcome
  categories_select :: outcome
  tasks_select :: outcome
  move_reply :: "nat \<Rightarrow> outcome"

text \<open>The outcome of an operation that may throw: the exception together with the state
  at the moment it is thrown, or the state (and value) on normal return.\<close>

type_synonym 'a result = "(exn \<times> app) + 'a"

text \<open>\<^verbatim>\<open>maybeSingle()\<close>: the row when exactly one row matches; otherwise no data (no row
  matches, or the request fails because several do).\<close>

definition maybeSingle :: "'a list \<Rightarrow> 'a option" where
  "maybeSingle rows = (case rows of [x] \<Rightarrow> Some x | _ \<Rightarrow> None)"

text \<open>\<^verbatim>\<open>Array.prototype.find\<close>.\<close>

fun find_first :: "('a \<Rightarrow> bool) \<Rightarrow> 'a list \<Rightarrow> 'a option" where
  "find_first P [] = None"
| "find_first P (x # xs) = (if P x then Some x else find_first P xs)"

text \<open>The two \<^verbatim>\<open>select\<close> requests of \<^verbatim>\<open>loadData\<close>. Rows with equal sort keys come in the
  order in which the table holds them.\<close>

definition select_categories :: "js_string \<Rightarrow> category list \<Rightarrow> category list" where
  "select_categories uid rows =
     (let mine = filter (\<lambda>c. category.user_id c = uid) rows
      in filter category.is_default mine @ filter (\<lambda>c. \<not> category.is_default c) mine)"

definition select_tasks :: "js_string \<Rightarrow> task list \<Rightarrow> task list" where
  "select_tasks uid rows =
     sort_key (\<lambda>t. - task.created_at t) (filter (\<lambda>t. task.user_id t = uid) rows)"

text \<open>
  \<^verbatim>\<open>ensureDefaultCategory\<close>. A request that throws is caught and ends the function.
  \<open>found\<close> is the \<^verbatim>\<open>data\<close> of the first request: the user's default category when the
  request is answered and exactly one row matches, and \<^verbatim>\<open>null\<close> otherwise, also when the
  request fails (its \<^verbatim>\<open>error\<close> is not read). With no \<^verbatim>\<open>data\<close> the category \<open>General\<close> is
  inserted, and put in front of the local list when the insert answers with the new
  row (\<^verbatim>\<open>if (newCategory)\<close>).
\<close>

definition ensureDefaultCategory :: "env \<Rightarrow> js_string \<Rightarrow> app \<Rightarrow> app" where
  "ensureDefaultCategory e userId s =
     (if threw (default_select e) then s
      else
        (let found =
               (if default_select e = Ok
                then maybeSingle
                       (filter (\<lambda>c. category.user_id c = userId \<and> category.is_default c)
                          (remote_categories s))
                else None)
         in case found of
              Some row \<Rightarrow> s
            | None \<Rightarrow>
                if default_insert e = Ok then
                  (let newCategory =
                         \<lparr>category.id = fresh_default_category_id e, name = js ''General'',
                          color = js ''#3b82f6'', user_id = userId, created_at = db_now e,
                          is_default = True\<rparr>
                   in s\<lparr>remote_categories := remote_categories s @ [newCategory],
                        categories := newCategory # categories s\<rparr>)
                else s))"

text \<open>
  \<^verbatim>\<open>loadData\<close>. Each list is replaced only when its \<^verbatim>\<open>select\<close> answers with data
  (\<^verbatim>\<open>if (catData)\<close>, \<^verbatim>\<open>if (taskData)\<close>; an empty array counts as data). A request that throws
  ends the \<^verbatim>\<open>try\<close> block, so the tasks are not requested when the request for the
  categories throws; \<^verbatim>\<open>finally\<close> clears \<open>loading\<close> in every case.
\<close>

definition loadData :: "env \<Rightarrow> app \<Rightarrow> app" where
  "loadData e s =
     (case user s of
        None \<Rightarrow> s\<lparr>tasks := [], categories := [], loading := False\<rparr>
      | Some uid \<Rightarrow>
          (let s1 = ensureDefaultCategory e uid s;
               s2 = (if categories_select e = Ok
                     then s1\<lparr>categories := select_categories uid (remote_categories s1)\<rparr>
                     else s1);
               s3 = (if \<not> threw (categories_select e) \<and> tasks_select e = Ok
                     then s2\<lparr>tasks := select_tasks uid (remote_tasks s2)\<rparr>
                     else s2)
           in s3\<lparr>loading := False\<rparr>))"

definition refreshData :: "env \<Rightarrow> app \<Rightarrow> app" where
  "refreshData e s = loadData e s"

text \<open>The callback of both realtime subscriptions (tables \<^verbatim>\<open>tasks\<close> and \<^verbatim>\<open>categories\<close>).\<close>

datatype table = TasksTable | CategoriesTable

definition onPostgresChanges :: "table \<Rightarrow> env \<Rightarrow> app \<Rightarrow> app" where
  "onPostgresChanges tbl e s = loadData e s"

text \<open>The object passed to \<^verbatim>\<open>addTask\<close>: a task without \<^verbatim>\<open>id\<close>, \<^verbatim>\<open>user_id\<close>, \<^verbatim>\<open>created_at\<close>,
  \<^verbatim>\<open>updated_at\<close> and \<^verbatim>\<open>order_index\<close>.\<close>

record new_task =
  nt_title :: js_string
  nt_description :: "js_string option"
  nt_status :: TaskStatus
  nt_category_id :: js_string
  nt_due_date :: "int option"
  nt_notification_minutes_before :: "int option"
  nt_enable_notification :: "bool option"

text \<open>The row that the insert creates. The migration that adds the two notification
  columns gives \<^verbatim>\<open>enable_notification\<close> the default \<^verbatim>\<open>true\<close>, which applies when the field is
  absent from the request.\<close>

definition inserted_task :: "env \<Rightarrow> js_string \<Rightarrow> nat \<Rightarrow> new_task \<Rightarrow> task" where
  "inserted_task e uid n t =
     \<lparr>task.id = fresh_task_id e, title = nt_title t, description = nt_description t,
      status = nt_status t, category_id = nt_category_id t, user_id = uid,
      due_date = nt_due_date t, created_at = db_now e, updated_at = db_now e,
      order_index = int n,
      notification_minutes_before = nt_notification_minutes_before t,
      enable_notification = Some (orElse (nt_enable_notification t) True)\<rparr>"

text \<open>\<^verbatim>\<open>addTask\<close> of \<^verbatim>\<open>DataContext.tsx\<close>. It returns nothing.\<close>

definition addTask :: "exn option \<Rightarrow> env \<Rightarrow> new_task \<Rightarrow> app \<Rightarrow> app result" where
  "addTask reply e t s =
     (case user s of
        None \<Rightarrow> Inl (Error (js ''User not authenticated''), s)
      | Some uid \<Rightarrow>
          (case reply of
             Some err \<Rightarrow> Inl (err, s)
           | None \<Rightarrow>
               Inr (refreshData e
                      (s\<lparr>remote_tasks := remote_tasks s @
                           [inserted_task e uid (length (tasks s)) t]\<rparr>))))"

definition updateTask ::
  "exn option \<Rightarrow> env \<Rightarrow> js_string \<Rightarrow> task_updates \<Rightarrow> app \<Rightarrow> app result" where
  "updateTask reply e tid updates s =
     (case reply of
        Some err \<Rightarrow> Inl (err, s)
      | None \<Rightarrow>
          Inr (refreshData e
                 (s\<lparr>remote_tasks :=
                      map (\<lambda>t. if task.id t = tid then update_task_row updates t else t)
                        (remote_tasks s)\<rparr>)))"

definition deleteTask :: "exn option \<Rightarrow> env \<Rightarrow> js_string \<Rightarrow> app \<Rightarrow> app result" where
  "deleteTask reply e tid s =
     (case reply of
        Some err \<Rightarrow> Inl (err, s)
      | None \<Rightarrow>
          Inr (refreshData e
                 (s\<lparr>remote_tasks := filter (\<lambda>t. task.id t \<noteq> tid) (remote_tasks s)\<rparr>)))"

definition addCategory ::
  "exn option \<Rightarrow> env \<Rightarrow> js_string \<Rightarrow> js_string \<Rightarrow> app \<Rightarrow> app result" where
  "addCategory reply e nm col s =
     (case user s of
        None \<Rightarrow> Inl (Error (js ''User not authenticated''), s)
      | Some uid \<Rightarrow>
          (case reply of
             Some err \<Rightarrow> Inl (err, s)
           | None \<Rightarrow>
               Inr (refreshData e
                      (s\<lparr>remote_categories := remote_categories s @
                           [\<lparr>category.id = fresh_category_id e, name = nm, color = col,
                             user_id = uid, created_at = db_now e, is_default = False\<rparr>]\<rparr>))))"

text \<open>\<^verbatim>\<open>const { is_default, ...safeUpdates } = updates\<close>.\<close>

definition safeUpdates :: "category_updates \<Rightarrow> category_updates" where
  "safeUpdates updates = updates\<lparr>cset_is_default := None\<rparr>"

definition updateCategory ::
  "exn option \<Rightarrow> env \<Rightarrow> js_string \<Rightarrow> category_updates \<Rightarrow> app \<Rightarrow> app result" where
  "updateCategory reply e cid updates s =
     (case reply of
        Some err \<Rightarrow> Inl (err, s)
      | None \<Rightarrow>
          Inr (refreshData e
                 (s\<lparr>remote_categories :=
                      map (\<lambda>c. if category.id c = cid
                                then update_category_row (safeUpdates updates) c else c)
                        (remote_categories s)\<rparr>)))"

text \<open>
  The loop of \<^verbatim>\<open>deleteCategory\<close> that moves the tasks: one \<^verbatim>\<open>update\<close> request per task of
  the local list, addressed by the task's id. The reply is not read: a request that
  fails is passed over, and one that throws ends \<^verbatim>\<open>deleteCategory\<close> with the rows moved so
  far. \<open>i\<close> is the number of the next request.
\<close>

fun moveTasks ::
  "(nat \<Rightarrow> outcome) \<Rightarrow> nat \<Rightarrow> task list \<Rightarrow> js_string \<Rightarrow> task list
     \<Rightarrow> (exn \<times> task list) + task list" where
  "moveTasks replies i [] defaultId rows = Inr rows"
| "moveTasks replies i (t # tasksToMove) defaultId rows =
     (case replies i of
        Thrown err \<Rightarrow> Inl (err, rows)
      | Failed \<Rightarrow> moveTasks replies (Suc i) tasksToMove defaultId rows
      | Ok \<Rightarrow>
          moveTasks replies (Suc i) tasksToMove defaultId
            (map (\<lambda>r. if task.id r = task.id t
                       then update_task_row
                              (no_task_updates\<lparr>set_category_id := Some defaultId\<rparr>) r
                       else r) rows))"

definition deleteCategory :: "exn option \<Rightarrow> env \<Rightarrow> js_string \<Rightarrow> app \<Rightarrow> app result" where
  "deleteCategory reply e cid s =
     (case find_first (\<lambda>c. category.id c = cid) (categories s) of
        None \<Rightarrow> Inl (Error (js ''Category not found''), s)
      | Some cat \<Rightarrow>
          if category.is_default cat
          then Inl (Error (js ''Cannot delete default category''), s)
          else
            (case find_first category.is_default (categories s) of
               None \<Rightarrow> Inl (Error (js ''Default category not found''), s)
             | Some defaultCategory \<Rightarrow>
                 (let tasksToMove = filter (\<lambda>t. task.category_id t = cid) (tasks s)
                  in case moveTasks (move_reply e) 0 tasksToMove (category.id defaultCategory)
                            (remote_tasks s) of
                       Inl (err, rows) \<Rightarrow> Inl (err, s\<lparr>remote_tasks := rows\<rparr>)
                     | Inr rows \<Rightarrow>
                         (let s1 = s\<lparr>remote_tasks := rows\<rparr>
                          in case reply of
                               Some err \<Rightarrow> Inl (err, s1)
                             | None \<Rightarrow>
                                 Inr (refreshData e
                                        (s1\<lparr>remote_categories :=
                                             filter (\<lambda>c. category.id c \<noteq> cid)
                                               (remote_categories s1)\<rparr>))))))"

text \<open>The default categories of a user among the rows of the table, the invariant that
  nobody has more than one, and the row that \<^verbatim>\<open>ensureDefaultCategory\<close> inserts.\<close>

definition defaults :: "js_string \<Rightarrow> category list \<Rightarrow> category list" where
  "defaults uid rows = filter (\<lambda>c. category.user_id c = uid \<and> category.is_default c) rows"


definition generalCategory :: "env \<Rightarrow> js_string \<Rightarrow> category" where
  "generalCategory e uid =
     \<lparr>category.id = fresh_default_category_id e, name = js ''General'',
      color = js ''#3b82f6'', user_id = uid, created_at = db_now e, is_default = True\<rparr>"


text \<open>
  \<open>reloaded e s1 s'\<close>: the state \<open>s'\<close> is what a reload makes of the state \<open>s1\<close>, field by
  field. The user stays signed in (or out), \<open>loading\<close> is cleared, and the task table is
  not written. With nobody signed in both local lists are emptied. Otherwise the
  category table is as \<^verbatim>\<open>ensureDefaultCategory\<close> leaves it; the local category list is the
  user's rows of that table when the request for them answers with data, and stays as
  \<^verbatim>\<open>ensureDefaultCategory\<close> left it when it does not; the local task list is the user's
  rows of the task table when that request is sent and answers with data, and stays as
  it was in \<open>s1\<close> when not.
\<close>

definition reloaded :: "env \<Rightarrow> app \<Rightarrow> app \<Rightarrow> bool" where
  "reloaded e s1 s' \<longleftrightarrow>
     user s' = user s1 \<and> \<not> app.loading s' \<and> remote_tasks s' = remote_tasks s1
     \<and> (case user s1 of
          None \<Rightarrow>
            tasks s' = [] \<and> categories s' = [] \<and> remote_categories s' = remote_categories s1
        | Some uid \<Rightarrow>
            remote_categories s' = remote_categories (ensureDefaultCategory e uid s1)
            \<and> categories s' =
                (if categories_select e = Ok
                 then select_categories uid (remote_categories s')
                 else categories (ensureDefaultCategory e uid s1))
            \<and> tasks s' =
                (if \<not> threw (categories_select e) \<and> tasks_select e = Ok
                 then select_tasks uid (remote_tasks s')
                 else tasks s1))"

subsection \<open>JavaScript numbers\<close>

text \<open>
  A finite \<^verbatim>\<open>number\<close> is an IEEE 754 double, here the rational it denotes. An arithmetic
  operation returns the double nearest to the exact result, ties going to the even
  significand. \<open>ilog2 q\<close> is the binary exponent of a positive \<open>q\<close>; a double carries 53
  significant bits, and below \<open>2 powi (- 1022)\<close> the spacing no longer shrinks.
  \<open>double_round\<close> rounds with an exponent that is unbounded above; the reports screen
  computes values of at most 100, and where larger values can arise the overflow to an
  infinity is added by \<open>to_number\<close> below. Integers below \<open>2 ^ 53\<close> are doubles, so
  converting a count is exact.
\<close>

definition round_half_even :: "rat \<Rightarrow> int" where
  "round_half_even q =
     (let f = \<lfloor>q\<rfloor>; r = q - of_int f
      in if r < 1 / 2 then f else if 1 / 2 < r then f + 1 else if even f then f else f + 1)"

definition ilog2 :: "rat \<Rightarrow> int" where
  "ilog2 q =
     (let (a, b) = quotient_of q; d = bitlen a - bitlen b
      in if 2 powi d \<le> q then d else d - 1)"

definition double_round :: "rat \<Rightarrow> rat" where
  "double_round q =
     (if q = 0 then 0
      else (let e = max (ilog2 \<bar>q\<bar>) (- 1022) - 52
            in sgn q * of_int (round_half_even (\<bar>q\<bar> / 2 powi e)) * 2 powi e))"

definition js_div :: "rat \<Rightarrow> rat \<Rightarrow> rat" where
  "js_div a b = double_round (a / b)"

definition js_mul :: "rat \<Rightarrow> rat \<Rightarrow> rat" where
  "js_mul a b = double_round (a * b)"

text \<open>\<^verbatim>\<open>Math.round\<close>: the nearest integer, a tie going upwards.\<close>

definition Math_round :: "rat \<Rightarrow> int" where
  "Math_round x = \<lfloor>x + 1 / 2\<rfloor>"

text \<open>
  A \<^verbatim>\<open>number\<close> in general: a finite double, an infinity or \<^verbatim>\<open>NaN\<close>. A finite result beyond the
  largest double overflows to an infinity. (Negative zero is not kept apart from zero;
  no operation used here tells them apart.)
\<close>

datatype number = Finite rat | PlusInfinity | MinusInfinity | NaN

definition to_number :: "rat \<Rightarrow> number" where
  "to_number q =
     (let r = double_round q
      in if 2 ^ 1024 \<le> r then PlusInfinity
         else if r \<le> - (2 ^ 1024) then MinusInfinity
         else Finite r)"

text \<open>The operators \<^verbatim>\<open>*\<close> and \<^verbatim>\<open>-\<close> on numbers.\<close>

fun number_times :: "number \<Rightarrow> number \<Rightarrow> number" where
  "number_times NaN y = NaN"
| "number_times x NaN = NaN"
| "number_times (Finite a) (Finite b) = to_number (a * b)"
| "number_times (Finite a) PlusInfinity =
     (if a = 0 then NaN else if 0 < a then PlusInfinity else MinusInfinity)"
| "number_times (Finite a) MinusInfinity =
     (if a = 0 then NaN else if 0 < a then MinusInfinity else PlusInfinity)"
| "number_times PlusInfinity (Finite b) =
     (if b = 0 then NaN else if 0 < b then PlusInfinity else MinusInfinity)"
| "number_times MinusInfinity (Finite b) =
     (if b = 0 then NaN else if 0 < b then MinusInfinity else PlusInfinity)"
| "number_times PlusInfinity PlusInfinity = PlusInfinity"
| "number_times PlusInfinity MinusInfinity = MinusInfinity"
| "number_times MinusInfinity PlusInfinity = MinusInfinity"
| "number_times MinusInfinity MinusInfinity = PlusInfinity"

fun number_minus :: "number \<Rightarrow> number \<Rightarrow> number" where
  "number_minus NaN y = NaN"
| "number_minus x NaN = NaN"
| "number_minus (Finite a) (Finite b) = to_number (a - b)"
| "number_minus (Finite a) PlusInfinity = MinusInfinity"
| "number_minus (Finite a) MinusInfinity = PlusInfinity"
| "number_minus PlusInfinity (Finite b) = PlusInfinity"
| "number_minus MinusInfinity (Finite b) = MinusInfinity"
| "number_minus PlusInfinity PlusInfinity = NaN"
| "number_minus PlusInfinity MinusInfinity = PlusInfinity"
| "number_minus MinusInfinity PlusInfinity = MinusInfinity"
| "number_minus MinusInfinity MinusInfinity = NaN"

text \<open>
  A \<^verbatim>\<open>Date\<close> object in general: a time value, which is an integer number of milliseconds
  of magnitude at most \<open>8.64e15\<close>, or an invalid date, whose time value is \<^verbatim>\<open>NaN\<close>.
  \<open>newDate\<close> is \<^verbatim>\<open>new Date(value)\<close> for a number: the value is clipped (not finite or out of
  range gives an invalid date) and truncated towards zero. \<open>date_le\<close> is \<^verbatim>\<open><=\<close> on two
  dates: it compares the time values and is false when one of them is \<^verbatim>\<open>NaN\<close>.
\<close>

datatype js_date = DateAt int | InvalidDate

definition getTime :: "js_date \<Rightarrow> number" where
  "getTime d = (case d of DateAt t \<Rightarrow> Finite (of_int t) | InvalidDate \<Rightarrow> NaN)"

definition newDate :: "number \<Rightarrow> js_date" where
  "newDate v =
     (case v of
        Finite x \<Rightarrow>
          if 8640000000000000 < \<bar>x\<bar> then InvalidDate
          else DateAt (if 0 \<le> x then \<lfloor>x\<rfloor> else \<lceil>x\<rceil>)
      | _ \<Rightarrow> InvalidDate)"

definition date_le :: "js_date \<Rightarrow> js_date \<Rightarrow> bool" where
  "date_le a b =
     (case (a, b) of
        (DateAt t, DateAt u) \<Rightarrow> t \<le> u
      | _ \<Rightarrow> False)"

subsection \<open>The reports screen\<close>

text \<open>The overall statistics \<^verbatim>\<open>stats.total\<close>, \<^verbatim>\<open>stats.completed\<close> and \<^verbatim>\<open>stats.active\<close>, and
  \<^verbatim>\<open>completionRate\<close>. (The counts per calendar day, week and month are not modelled.)\<close>

definition stats_total :: "task list \<Rightarrow> nat" where
  "stats_total ts = length ts"

definition stats_completed :: "task list \<Rightarrow> nat" where
  "stats_completed ts = length (filter (\<lambda>t. task.status t = completed) ts)"

definition stats_active :: "task list \<Rightarrow> nat" where
  "stats_active ts =
     length (filter (\<lambda>t. task.status t = upcoming \<or> task.status t = overdue) ts)"

definition completionRate :: "task list \<Rightarrow> int" where
  "completionRate ts =
     (if stats_total ts > 0
      then Math_round (js_mul (js_div (of_nat (stats_completed ts)) (of_nat (stats_total ts))) 100)
      else 0)"

text \<open>The rate as the specification words it: the exact quotient, rounded.\<close>

definition spec_completionRate :: "task list \<Rightarrow> int" where
  "spec_completionRate ts =
     (if stats_total ts > 0
      then round (100 * of_nat (stats_completed ts) / of_nat (stats_total ts) :: rat)
      else 0)"

subsection \<open>The notification service\<close>

text \<open>Decimal rendering of an integer inside a template literal.\<close>

fun digits :: "nat \<Rightarrow> js_string" where
  "digits n = (if n < 10 then [48 + n] else digits (n div 10) @ [48 + n mod 10])"

declare digits.simps [simp del]

definition toString :: "int \<Rightarrow> js_string" where
  "toString i = (if i < 0 then 45 # digits (nat (- i)) else digits (nat i))"

text \<open>
  The trigger of a request, and its content. The body of a reminder is a template
  literal with a hole for a string and one for a number; it is kept as the list of its
  pieces, a number standing for its rendering.
\<close>

datatype trigger = DateTrigger js_date | DailyTrigger int int

datatype piece = Str js_string | Num number

record notification_content =
  ntitle :: js_string
  body :: "piece list"
  data_taskId :: "js_string option"
  data_type :: "js_string option"
  sound :: bool

record notification_request =
  identifier' :: js_string
  content :: notification_content
  trigger :: trigger

text \<open>
  The operating system's scheduler (expo-notifications) is outside the repository. It is
  a store of pending requests. A call of \<^verbatim>\<open>scheduleNotificationAsync\<close> either throws or
  stores the request under an identifier of the scheduler's choice; which of the two
  happens, and the identifier, is the reply \<open>os\<close> of the environment.
\<close>

definition scheduleNotificationAsync ::
  "js_string option \<Rightarrow> notification_content \<Rightarrow> trigger \<Rightarrow> notification_request list
     \<Rightarrow> unit + (js_string \<times> notification_request list)" where
  "scheduleNotificationAsync os c t scheduled =
     (case os of
        None \<Rightarrow> Inl ()
      | Some nid \<Rightarrow> Inr (nid, scheduled @ [\<lparr>identifier' = nid, content = c, trigger = t\<rparr>]))"

definition cancelScheduledNotificationAsync ::
  "js_string \<Rightarrow> notification_request list \<Rightarrow> notification_request list" where
  "cancelScheduledNotificationAsync nid scheduled = filter (\<lambda>n. identifier' n \<noteq> nid) scheduled"

text \<open>\<^verbatim>\<open>new Date(dueDate.getTime() - minutesBefore * 60000)\<close>.\<close>

definition triggerDate :: "js_date \<Rightarrow> number \<Rightarrow> js_date" where
  "triggerDate due minutesBefore =
     newDate (number_minus (getTime due) (number_times minutesBefore (Finite 60000)))"

text \<open>
  \<^verbatim>\<open>NotificationsService.scheduleTaskNotification\<close>; \<open>now\<close> is the time value of
  \<^verbatim>\<open>new Date()\<close>. The result is the returned identifier (or \<^verbatim>\<open>null\<close>) and the scheduler's
  store. An exception of the scheduler is caught and gives \<^verbatim>\<open>null\<close>. (The default \<open>60\<close> of
  \<^verbatim>\<open>minutesBefore\<close> stands in for an argument that is \<^verbatim>\<open>undefined\<close>; the callers pass a
  number.)
\<close>

definition scheduleTaskNotification ::
  "js_string option \<Rightarrow> int \<Rightarrow> js_string \<Rightarrow> js_string \<Rightarrow> js_date \<Rightarrow> number
     \<Rightarrow> notification_request list \<Rightarrow> js_string option \<times> notification_request list" where
  "scheduleTaskNotification os now taskId taskTitle due minutesBefore scheduled =
     (if date_le (triggerDate due minutesBefore) (DateAt now) then (None, scheduled)
      else
        (case scheduleNotificationAsync os
                \<lparr>ntitle = [0x23F0] @ js '' Task Reminder'',
                 body = [Str (js [CHR 0x22]), Str taskTitle,
                         Str (js [CHR 0x22] @ js '' expir'' @ [0x103] @ js '' '' @ [0xEE]
                              @ js ''n ''),
                         Num minutesBefore, Str (js '' minute!'')],
                 data_taskId = Some taskId,
                 data_type = Some (js ''task_reminder''),
                 sound = True\<rparr>
                (DateTrigger (triggerDate due minutesBefore)) scheduled of
           Inl _ \<Rightarrow> (None, scheduled)
         | Inr (notificationId, scheduled') \<Rightarrow> (Some notificationId, scheduled')))"

text \<open>\<^verbatim>\<open>NotificationsService.cancelNotification\<close> and \<^verbatim>\<open>getScheduledNotifications\<close>.\<close>

definition cancelNotification ::
  "js_string \<Rightarrow> notification_request list \<Rightarrow> notification_request list" where
  "cancelNotification notificationId scheduled =
     cancelScheduledNotificationAsync notificationId scheduled"

definition getScheduledNotifications :: "notification_request list \<Rightarrow> notification_request list" where
  "getScheduledNotifications scheduled = scheduled"

subsection \<open>Submitting the task dialog\<close>

text \<open>
  What \<^verbatim>\<open>handleSubmit\<close> can touch: the hooks of the dialog, its \<^verbatim>\<open>task\<close> prop (the task
  being edited, if any), the data context, the scheduler's store, \<^verbatim>\<open>isRegistered\<close> of the
  notifications context, the number of calls of \<^verbatim>\<open>onDismiss\<close> and the alerts shown.
\<close>

record world =
  dlg :: dialog
  task_prop :: "task option"
  data :: app
  scheduled :: "notification_request list"
  isRegistered :: bool
  dismissals :: nat
  alerts :: "(js_string \<times> js_string) list"

text \<open>The object \<^verbatim>\<open>taskData\<close>. Its lead time is a number, \<^verbatim>\<open>null\<close> (\<open>Some None\<close>) or
  \<^verbatim>\<open>undefined\<close> (\<open>None\<close>); its due date is \<^verbatim>\<open>undefined\<close> when no date is set.\<close>

record task_data =
  td_title :: js_string
  td_description :: js_string
  td_category_id :: js_string
  td_status :: TaskStatus
  td_due_date :: "int option"
  td_enable_notification :: "bool option"
  td_notification_minutes_before :: "int option option"

definition as_new_task :: "task_data \<Rightarrow> new_task" where
  "as_new_task td =
     \<lparr>nt_title = td_title td, nt_description = Some (td_description td),
      nt_status = td_status td, nt_category_id = td_category_id td,
      nt_due_date = td_due_date td,
      nt_notification_minutes_before =
        (case td_notification_minutes_before td of None \<Rightarrow> None | Some v \<Rightarrow> v),
      nt_enable_notification = td_enable_notification td\<rparr>"

definition as_updates :: "task_data \<Rightarrow> task_updates" where
  "as_updates td =
     no_task_updates
       \<lparr>set_title := Some (td_title td),
        set_description := Some (Some (td_description td)),
        set_category_id := Some (td_category_id td),
        set_status := Some (td_status td),
        set_due_date := (case td_due_date td of None \<Rightarrow> None | Some v \<Rightarrow> Some (Some v)),
        set_enable_notification :=
          (case td_enable_notification td of None \<Rightarrow> None | Some b \<Rightarrow> Some (Some b)),
        set_notification_minutes_before := td_notification_minutes_before td\<rparr>"

text \<open>\<^verbatim>\<open>scheduleTaskReminder\<close> and \<^verbatim>\<open>cancelNotification\<close> of the notifications context
  forward to the service.\<close>

definition scheduleTaskReminder ::
  "js_string option \<Rightarrow> int \<Rightarrow> js_string \<Rightarrow> js_string \<Rightarrow> js_date \<Rightarrow> number
     \<Rightarrow> notification_request list \<Rightarrow> js_string option \<times> notification_request list" where
  "scheduleTaskReminder os now taskId taskTitle due minutesBefore sched =
     scheduleTaskNotification os now taskId taskTitle due minutesBefore sched"

text \<open>\<^verbatim>\<open>resetForm\<close> of the variants with reminders; \<open>cats\<close> is the \<^verbatim>\<open>categories\<close> of the render
  that created the handler.\<close>

definition resetForm :: "category list \<Rightarrow> dialog \<Rightarrow> dialog" where
  "resetForm cats d =
     (let d1 = d\<lparr>dialog.title := [], dialog.description := [], dialog.status := upcoming,
                 dueDate := None, enableNotification := True,
                 notificationMinutesBefore := 60\<rparr>
      in case find_first category.is_default cats of
           Some defaultCategory \<Rightarrow> d1\<lparr>categoryId := category.id defaultCategory\<rparr>
         | None \<Rightarrow> d1)"

definition invalidNotificationMessage :: "int \<Rightarrow> int \<Rightarrow> js_string" where
  "invalidNotificationMessage minutesBefore m =
     js ''Nu po'' @ [0x21B] @ js ''i seta o notificare cu '' @ toString minutesBefore
     @ js '' minute '' @ [0xEE] @ js ''nainte c'' @ [0xE2] @ js ''nd task-ul expir'' @ [0x103]
     @ js '' '' @ [0xEE] @ js ''n doar '' @ toString m @ js '' minute.'' @ [0xA, 0xA]
     @ js ''Alege o valoare mai mic'' @ [0x103] @ js '' sau schimb'' @ [0x103]
     @ js '' due date-ul.''"

definition isOverdue :: "dialog \<Rightarrow> bool" where
  "isOverdue d = (case minutesUntilDue d of None \<Rightarrow> False | Some m \<Rightarrow> m \<le> 0)"

definition taskData :: "dialog \<Rightarrow> task_data" where
  "taskData d =
     \<lparr>td_title = trim (dialog.title d),
      td_description = trim (dialog.description d),
      td_category_id = categoryId d,
      td_status = dialog.status d,
      td_due_date = dueDate d,
      td_enable_notification = Some (enableNotification d \<and> \<not> isOverdue d),
      td_notification_minutes_before =
        Some (if enableNotification d \<and> \<not> isOverdue d
              then Some (notificationMinutesBefore d) else None)\<rparr>"

text \<open>The object \<^verbatim>\<open>{ ...task, ...taskData }\<close>.\<close>

definition spread :: "task \<Rightarrow> task_data \<Rightarrow> task" where
  "spread t td =
     t\<lparr>task.title := td_title td,
       task.description := Some (td_description td),
       task.category_id := td_category_id td,
       task.status := td_status td,
       task.due_date := td_due_date td,
       task.enable_notification := td_enable_notification td,
       task.notification_minutes_before :=
         (case td_notification_minutes_before td of None \<Rightarrow> None | Some v \<Rightarrow> v)\<rparr>"

text \<open>
  The save step of the final variant: \<^verbatim>\<open>updateTask\<close> and the merged object when editing,
  \<^verbatim>\<open>addTask\<close> otherwise. \<^verbatim>\<open>addTask\<close> returns nothing, so after a creation \<^verbatim>\<open>savedTask\<close> is
  \<^verbatim>\<open>undefined\<close>.
\<close>

definition saveTask ::
  "exn option \<Rightarrow> env \<Rightarrow> task option \<Rightarrow> task_data \<Rightarrow> app \<Rightarrow> (task option \<times> app) result" where
  "saveTask reply e editing td s =
     (case editing of
        Some t \<Rightarrow>
          (case updateTask reply e (task.id t) (as_updates td) s of
             Inl thrown \<Rightarrow> Inl thrown
           | Inr s' \<Rightarrow> Inr (Some (spread t td), s'))
      | None \<Rightarrow>
          (case addTask reply e (as_new_task td) s of
             Inl thrown \<Rightarrow> Inl thrown
           | Inr s' \<Rightarrow> Inr (None, s')))"

text \<open>
  \<^verbatim>\<open>handleSubmit\<close> of the final variant. \<open>reply\<close> is the remote reply to the insert or
  update, \<open>os\<close> the scheduler's reply and \<open>now\<close> the clock reading when the reminder is
  scheduled. The condition that guards the scheduling is a chain of \<^verbatim>\<open>&&\<close>: it reads
  \<^verbatim>\<open>savedTask.id\<close> only when the toggle is on, a due date is set and the device is
  registered, and reading it throws a \<^verbatim>\<open>TypeError\<close> when \<^verbatim>\<open>savedTask\<close> is \<^verbatim>\<open>undefined\<close>. Whatever
  is thrown inside the \<^verbatim>\<open>try\<close> block ends in the alert of the \<^verbatim>\<open>catch\<close> block.
\<close>

definition handleSubmit ::
  "exn option \<Rightarrow> env \<Rightarrow> js_string option \<Rightarrow> int \<Rightarrow> world \<Rightarrow> world" where
  "handleSubmit reply e os now w =
     (let d = dlg w in
      if trim (dialog.title d) = [] \<or> categoryId d = [] then w
      else if enableNotification d \<and> dueDate d \<noteq> None \<and> \<not> isOverdue d
              \<and> \<not> isNotificationValid d
      then w\<lparr>alerts := alerts w @
                [(js ''Invalid Notification'',
                  invalidNotificationMessage (notificationMinutesBefore d)
                    (case minutesUntilDue d of Some m \<Rightarrow> m | None \<Rightarrow> 0))]\<rparr>
      else
        (case saveTask reply e (task_prop w) (taskData d) (data w) of
           Inl (err, s') \<Rightarrow>
             w\<lparr>data := s',
               alerts := alerts w @
                 [(js ''Error'', js ''Failed to save task. Please try again.'')],
               dlg := d\<lparr>dialog.loading := False\<rparr>\<rparr>
         | Inr (savedTask, s') \<Rightarrow>
             (let caught =
                    w\<lparr>data := s',
                      alerts := alerts w @
                        [(js ''Error'', js ''Failed to save task. Please try again.'')],
                      dlg := d\<lparr>dialog.loading := False\<rparr>\<rparr>;
                  dismissed =
                    (\<lambda>sched'.
                       w\<lparr>data := s',
                         scheduled := sched',
                         dismissals := Suc (dismissals w),
                         dlg := (resetForm (categories (data w)) d)\<lparr>dialog.loading := False\<rparr>\<rparr>)
              in case dueDate d of
                   None \<Rightarrow> dismissed (scheduled w)
                 | Some due \<Rightarrow>
                     if enableNotification d \<and> isRegistered w then
                       (case savedTask of
                          None \<Rightarrow> caught
                        | Some saved \<Rightarrow>
                            if task.id saved \<noteq> [] \<and> isNotificationValid d
                               \<and> (case minutesUntilDue d of Some m \<Rightarrow> 0 < m | None \<Rightarrow> False)
                            then dismissed
                                   (snd (scheduleTaskReminder os now (task.id saved)
                                           (trim (dialog.title d)) (DateAt due)
                                           (Finite (of_int (notificationMinutesBefore d)))
                                           (scheduled w)))
                            else dismissed (scheduled w))
                     else dismissed (scheduled w))))"

text \<open>
  The earlier variant with reminders (\<^verbatim>\<open>TaskDialog.tsx - UPDATED with Notifications\<close>).
  Its loop cancels every pending request of the saved task before a new one is
  scheduled. After a creation it reads \<^verbatim>\<open>newTask.id\<close> of what \<^verbatim>\<open>addTask\<close> returned, which
  throws a \<^verbatim>\<open>TypeError\<close>.
\<close>

definition taskData_reconciling :: "dialog \<Rightarrow> task_data" where
  "taskData_reconciling d =
     \<lparr>td_title = trim (dialog.title d),
      td_description = trim (dialog.description d),
      td_category_id = categoryId d,
      td_status = dialog.status d,
      td_due_date = dueDate d,
      td_enable_notification = Some (enableNotification d),
      td_notification_minutes_before =
        (if enableNotification d then Some (Some (notificationMinutesBefore d)) else None)\<rparr>"

fun cancelForTask ::
  "notification_request list \<Rightarrow> js_string \<Rightarrow> notification_request list
     \<Rightarrow> notification_request list" where
  "cancelForTask [] savedTaskId sched = sched"
| "cancelForTask (n # ns) savedTaskId sched =
     cancelForTask ns savedTaskId
       (if data_taskId (content n) = Some savedTaskId
        then cancelNotification (identifier' n) sched else sched)"

definition saveTaskId ::
  "exn option \<Rightarrow> env \<Rightarrow> task option \<Rightarrow> task_data \<Rightarrow> app \<Rightarrow> (js_string \<times> app) result" where
  "saveTaskId reply e editing td s =
     (case editing of
        Some t \<Rightarrow>
          (case updateTask reply e (task.id t) (as_updates td) s of
             Inl thrown \<Rightarrow> Inl thrown
           | Inr s' \<Rightarrow> Inr (task.id t, s'))
      | None \<Rightarrow>
          (case addTask reply e (as_new_task td) s of
             Inl thrown \<Rightarrow> Inl thrown
           | Inr s' \<Rightarrow> Inl (TypeError, s')))"

definition handleSubmit_reconciling ::
  "exn option \<Rightarrow> env \<Rightarrow> js_string option \<Rightarrow> int \<Rightarrow> world \<Rightarrow> world" where
  "handleSubmit_reconciling reply e os now w =
     (let d = dlg w in
      if trim (dialog.title d) = [] \<or> categoryId d = [] then w
      else
        (case saveTaskId reply e (task_prop w) (taskData_reconciling d) (data w) of
           Inl (err, s') \<Rightarrow>
             w\<lparr>data := s',
               alerts := alerts w @
                 [(js ''Error'', js ''Failed to save task. Please try again.'')],
               dlg := d\<lparr>dialog.loading := False\<rparr>\<rparr>
         | Inr (savedTaskId, s') \<Rightarrow>
             (let sched' =
                    (if savedTaskId \<noteq> [] \<and> isRegistered w then
                       (let cancelled =
                              cancelForTask (getScheduledNotifications (scheduled w))
                                savedTaskId (scheduled w)
                        in case dueDate d of
                             Some due \<Rightarrow>
                               if enableNotification d
                               then snd (scheduleTaskReminder os now savedTaskId
                                           (trim (dialog.title d)) (DateAt due)
                                           (Finite (of_int (notificationMinutesBefore d)))
                                           cancelled)
                               else cancelled
                           | None \<Rightarrow> cancelled)
                     else scheduled w)
              in w\<lparr>data := s',
                   scheduled := sched',
                   dismissals := Suc (dismissals w),
                   dlg := (resetForm (categories (data w)) d)\<lparr>dialog.loading := False\<rparr>\<rparr>)))"

text \<open>The first variant, without reminders: it saves title, description, category, status
  and due date only, and reports a failure on the console.\<close>

definition taskData_plain :: "dialog \<Rightarrow> task_data" where
  "taskData_plain d =
     \<lparr>td_title = trim (dialog.title d),
      td_description = trim (dialog.description d),
      td_category_id = categoryId d,
      td_status = dialog.status d,
      td_due_date = dueDate d,
      td_enable_notification = None,
      td_notification_minutes_before = None\<rparr>"

definition resetForm_plain :: "category list \<Rightarrow> dialog \<Rightarrow> dialog" where
  "resetForm_plain cats d =
     (let d1 = d\<lparr>dialog.title := [], dialog.description := [], dialog.status := upcoming,
                 dueDate := None\<rparr>
      in case find_first category.is_default cats of
           Some defaultCategory \<Rightarrow> d1\<lparr>categoryId := category.id defaultCategory\<rparr>
         | None \<Rightarrow> d1)"

definition handleSubmit_plain :: "exn option \<Rightarrow> env \<Rightarrow> world \<Rightarrow> world" where
  "handleSubmit_plain reply e w =
     (let d = dlg w in
      if trim (dialog.title d) = [] \<or> categoryId d = [] then w
      else
        (case (case task_prop w of
                 Some t \<Rightarrow> updateTask reply e (task.id t) (as_updates (taskData_plain d)) (data w)
               | None \<Rightarrow> addTask reply e (as_new_task (taskData_plain d)) (data w)) of
           Inl (err, s') \<Rightarrow> w\<lparr>data := s', dlg := d\<lparr>dialog.loading := False\<rparr>\<rparr>
         | Inr s' \<Rightarrow>
             w\<lparr>data := s',
               dismissals := Suc (dismissals w),
               dlg := (resetForm_plain (categories (data w)) d)\<lparr>dialog.loading := False\<rparr>\<rparr>))"

subsection \<open>Example states\<close>

definition exampleDialog :: dialog where
  "exampleDialog =
     \<lparr>dialog.title = js ''Pay rent'', description = [], categoryId = js ''c1'',
      selectedCategoryColor = js ''#3b82f6'', status = upcoming, dueDate = Some 3600000,
      showDatePicker = False, showTimePicker = False, loading = False, tempDate = 0,
      enableNotification = True, notificationMinutesBefore = 60, memoNow = 0\<rparr>"

definition exampleTask :: "TaskStatus \<Rightarrow> task" where
  "exampleTask st =
     \<lparr>task.id = js ''t'', title = js ''Pay rent'', description = None, status = st,
      category_id = js ''c1'', user_id = js ''u1'', due_date = None, created_at = 0,
      updated_at = 0, order_index = 0, notification_minutes_before = None,
      enable_notification = None\<rparr>"

definition fortyTasks :: "task list" where
  "fortyTasks = replicate 23 (exampleTask completed) @ replicate 17 (exampleTask upcoming)"

definition exampleEnv :: env where
  "exampleEnv =
     \<lparr>fresh_task_id = js ''t2'', fresh_category_id = js ''c2'',
      fresh_default_category_id = js ''c3'', db_now = 5000,
      default_select = Ok, default_insert = Ok, categories_select = Ok, tasks_select = Ok,
      move_reply = (\<lambda>i. Ok)\<rparr>"

definition exampleCategories :: "category list" where
  "exampleCategories =
     [\<lparr>category.id = js ''c0'', name = js ''General'', color = js ''#3b82f6'',
       user_id = js ''u1'', created_at = 0, is_default = True\<rparr>,
      \<lparr>category.id = js ''c1'', name = js ''Home'', color = js ''#06b6d4'',
       user_id = js ''u1'', created_at = 10, is_default = False\<rparr>]"

definition task1 :: task where
  "task1 =
     \<lparr>task.id = js ''t1'', title = js ''Pay rent'', description = Some [],
      status = upcoming, category_id = js ''c1'', user_id = js ''u1'',
      due_date = Some 3600000, created_at = 20, updated_at = 20, order_index = 0,
      notification_minutes_before = Some 30, enable_notification = Some True\<rparr>"

definition exampleApp :: app where
  "exampleApp =
     \<lparr>user = Some (js ''u1''), tasks = [task1], categories = exampleCategories,
      loading = False, remote_tasks = [task1], remote_categories = exampleCategories\<rparr>"

definition exampleDialog2 :: dialog where
  "exampleDialog2 =
     \<lparr>dialog.title = js ''Pay rent'', description = [], categoryId = js ''c1'',
      selectedCategoryColor = js ''#3b82f6'', status = upcoming, dueDate = Some 3600000,
      showDatePicker = False, showTimePicker = False, loading = False, tempDate = 0,
      enableNotification = True, notificationMinutesBefore = 30, memoNow = 0\<rparr>"

definition reminder1 :: notification_request where
  "reminder1 =
     \<lparr>identifier' = js ''n1'',
      content = \<lparr>ntitle = js ''Task Reminder'', body = [Str (js ''Pay rent'')],
                 data_taskId = Some (js ''t1''), data_type = Some (js ''task_reminder''),
                 sound = True\<rparr>,
      trigger = DateTrigger (DateAt 1800000)\<rparr>"

definition editWorld :: world where
  "editWorld =
     \<lparr>dlg = exampleDialog2, task_prop = Some task1, data = exampleApp,
      scheduled = [reminder1], isRegistered = True, dismissals = 0, alerts = []\<rparr>"



definition blankWorld :: world where
  "blankWorld =
     \<lparr>dlg = exampleDialog\<lparr>dialog.title := [0x20, 0x9, 0xA0]\<rparr>, task_prop = None,
      data = exampleApp, scheduled = [reminder1], isRegistered = True, dismissals = 0,
      alerts = []\<rparr>"

definition overdueWorld :: world where
  "overdueWorld =
     \<lparr>dlg = exampleDialog\<lparr>dueDate := Some 0, memoNow := 600000\<rparr>, task_prop = None,
      data = exampleApp, scheduled = [], isRegistered = True, dismissals = 0, alerts = []\<rparr>"

text \<open>Replies of the remote service that fail, and states for them.\<close>

definition staleEnv :: env where
  "staleEnv = exampleEnv\<lparr>tasks_select := Failed\<rparr>"

definition noCategoriesEnv :: env where
  "noCategoriesEnv = exampleEnv\<lparr>categories_select := Failed\<rparr>"



definition homeCategory :: category where
  "homeCategory =
     \<lparr>category.id = js ''c1'', name = js ''Home'', color = js ''#06b6d4'',
      user_id = js ''u1'', created_at = 10, is_default = False\<rparr>"

definition homeOnly :: app where
  "homeOnly = exampleApp\<lparr>categories := [homeCategory], remote_categories := [homeCategory]\<rparr>"

definition rename :: category_updates where
  "rename =
     \<lparr>cset_id = None, cset_name = Some (js ''House''), cset_color = None, cset_user_id = None,
      cset_created_at = None, cset_is_default = None\<rparr>"



section \<open>Properties\<close>

subsection \<open>Lead-time options\<close>

lemma allOptions_vals: "map val allOptions = [5, 15, 30, 60, 120, 1440]"
  by (simp add: allOptions_def)

lemma validNotificationOptions_nonempty: "validNotificationOptions m \<noteq> []"
  by (auto simp: validNotificationOptions_def Let_def allOptions_def split: option.splits)

lemma validNotificationOptions_filter:
  assumes "0 < m"
  shows "validNotificationOptions (Some m) =
        (if \<exists>opt \<in> set allOptions. val opt < m
         then filter (\<lambda>opt. val opt < m) allOptions
         else [\<lparr>label = js ''1 min'', val = 1\<rparr>])"
proof -
  have "(filter (\<lambda>opt. val opt < m) allOptions \<noteq> []) = (\<exists>opt \<in> set allOptions. val opt < m)"
    by (simp add: filter_empty_conv)
  with assms show ?thesis
    by (simp add: validNotificationOptions_def Let_def)
qed

lemma validNotificationOptions_nonpos:
  "m \<le> 0 \<Longrightarrow> validNotificationOptions (Some m) = allOptions"
  by (simp add: validNotificationOptions_def)

lemma sorted_filter_allOptions: "sorted (map val (filter P allOptions))"
  by (simp add: allOptions_def)

lemma validNotificationOptions_sorted: "sorted (map val (validNotificationOptions (Some m)))"
proof (cases "0 < m")
  case True
  then show ?thesis
    using sorted_filter_allOptions [of "\<lambda>opt. val opt < m"]
    by (simp add: validNotificationOptions_filter)
next
  case False
  then have "validNotificationOptions (Some m) = allOptions"
    using validNotificationOptions_nonpos by simp
  then show ?thesis by (simp add: allOptions_def)
qed

lemma sorted_last_Max:
  fixes xs :: "int list"
  assumes "sorted xs" and "xs \<noteq> []"
  shows "last xs = Max (set xs)"
proof -
  have "\<forall>x \<in> set xs. x \<le> last xs"
    using assms
  proof (induction xs)
    case Nil
    then show ?case by simp
  next
    case (Cons a xs)
    then show ?case by (cases xs) auto
  qed
  moreover have "last xs \<in> set xs" using assms by simp
  ultimately show ?thesis by (simp add: Max_eqI [symmetric])
qed

text \<open>
  Claim C2. When the memoised number of minutes until the due date is positive, the
  offered options are the standard options whose value is strictly below it, in the
  standard (ascending) order; when none is, the single option of one minute is offered;
  without a due date, or when the number of minutes is not positive, all six standard
  options are offered.
\<close>

theorem validNotificationOptions_spec:
  "(0 < m \<longrightarrow>
      validNotificationOptions (Some m) =
        (if \<exists>opt \<in> set allOptions. val opt < m
         then filter (\<lambda>opt. val opt < m) allOptions
         else [\<lparr>label = js ''1 min'', val = 1\<rparr>]))
   \<and> (m \<le> 0 \<longrightarrow> validNotificationOptions (Some m) = allOptions)
   \<and> validNotificationOptions None = allOptions
   \<and> map val allOptions = [5, 15, 30, 60, 120, 1440]
   \<and> sorted (map val (validNotificationOptions (Some m)))"
  using validNotificationOptions_filter [of m] validNotificationOptions_nonpos [of m]
    validNotificationOptions_sorted [of m]
  by (simp add: validNotificationOptions_def allOptions_vals)

theorem validNotificationOptions_spec_witness:
  "map val (validNotificationOptions (Some 45)) = [5, 15, 30]
   \<and> map val (validNotificationOptions (Some 3)) = [1]
   \<and> map val (validNotificationOptions (Some (- 7))) = [5, 15, 30, 60, 120, 1440]"
proof -
  have a: "validNotificationOptions (Some 45) =
        (if \<exists>opt \<in> set allOptions. val opt < 45
         then filter (\<lambda>opt. val opt < 45) allOptions
         else [\<lparr>label = js ''1 min'', val = 1\<rparr>])"
    using validNotificationOptions_spec [of 45] by simp
  have b: "validNotificationOptions (Some 3) =
        (if \<exists>opt \<in> set allOptions. val opt < 3
         then filter (\<lambda>opt. val opt < 3) allOptions
         else [\<lparr>label = js ''1 min'', val = 1\<rparr>])"
    using validNotificationOptions_spec [of 3] by simp
  have c: "validNotificationOptions (Some (- 7)) = allOptions"
    using validNotificationOptions_spec [of "- 7"] by simp
  show ?thesis
    unfolding a b c by (simp add: allOptions_def)
qed

text \<open>
  Claim C4. With a due date whose memoised distance \<open>m\<close> is positive, a selected lead
  time of at least \<open>m\<close> minutes is replaced by the value of the last entry of the valid
  options, which is the largest one; and when some standard option lies strictly below
  \<open>m\<close>, the lead time after the adjustment is below \<open>m\<close> and \<^verbatim>\<open>isNotificationValid\<close> holds.
\<close>

theorem autoAdjust_spec:
  assumes due: "dueDate d = Some due"
    and m: "minutesUntilDue d = Some m"
    and pos: "0 < m"
  shows "(m \<le> notificationMinutesBefore d \<longrightarrow>
            autoAdjust d =
              d\<lparr>notificationMinutesBefore := val (last (validNotificationOptions (Some m)))\<rparr>)
       \<and> val (last (validNotificationOptions (Some m)))
             = Max (set (map val (validNotificationOptions (Some m))))
       \<and> ((\<exists>opt \<in> set allOptions. val opt < m) \<longrightarrow>
             notificationMinutesBefore (autoAdjust d) < m \<and> isNotificationValid (autoAdjust d))"
proof -
  let ?opts = "validNotificationOptions (Some m)"
  have ne: "?opts \<noteq> []" by (rule validNotificationOptions_nonempty)
  then have lo: "lastOption ?opts = Some (last ?opts)"
    by (simp add: lastOption_def last_conv_nth)
  have adj: "autoAdjust d = d\<lparr>notificationMinutesBefore := val (last ?opts)\<rparr>"
    if "m \<le> notificationMinutesBefore d"
    using that due m pos lo by (simp add: autoAdjust_def)
  have keep: "autoAdjust d = d" if "notificationMinutesBefore d < m"
    using that due m pos by (simp add: autoAdjust_def)
  have srt: "sorted (map val ?opts)"
    using validNotificationOptions_sorted by simp
  have mx: "val (last ?opts) = Max (set (map val ?opts))"
  proof -
    have "map val ?opts \<noteq> []" using ne by simp
    then have "Max (set (map val ?opts)) = last (map val ?opts)"
      using srt sorted_last_Max by metis
    then show ?thesis using ne by (simp add: last_map)
  qed
  have below: "val (last ?opts) < m" if "\<exists>opt \<in> set allOptions. val opt < m"
  proof -
    have "?opts = filter (\<lambda>opt. val opt < m) allOptions"
      using that pos validNotificationOptions_filter by simp
    moreover have "last ?opts \<in> set ?opts" using ne by simp
    ultimately show ?thesis by (metis (mono_tags, lifting) mem_Collect_eq set_filter)
  qed
  have valid: "notificationMinutesBefore (autoAdjust d) < m \<and> isNotificationValid (autoAdjust d)"
    if ex: "\<exists>opt \<in> set allOptions. val opt < m"
  proof (cases "m \<le> notificationMinutesBefore d")
    case True
    then show ?thesis
      using adj below [OF ex] due m pos
      by (simp add: isNotificationValid_def minutesUntilDue_def)
  next
    case False
    then show ?thesis
      using keep due m pos by (simp add: isNotificationValid_def)
  qed
  show ?thesis using adj mx valid by blast
qed

theorem autoAdjust_spec_witness:
  "notificationMinutesBefore (autoAdjust exampleDialog) = 30
   \<and> isNotificationValid (autoAdjust exampleDialog)"
proof -
  have due: "dueDate exampleDialog = Some 3600000"
    by (simp add: exampleDialog_def)
  have m: "minutesUntilDue exampleDialog = Some 60"
    by (simp add: exampleDialog_def minutesUntilDue_def differenceInMinutes_def)
  have sel: "(60::int) \<le> notificationMinutesBefore exampleDialog"
    by (simp add: exampleDialog_def)
  have ex: "\<exists>opt \<in> set allOptions. val opt < 60"
    by (simp add: allOptions_def)
  have opts: "val (last (validNotificationOptions (Some 60))) = 30"
    by (simp add: validNotificationOptions_def allOptions_def)
  have spec:
    "(60 \<le> notificationMinutesBefore exampleDialog \<longrightarrow>
        autoAdjust exampleDialog =
          exampleDialog\<lparr>notificationMinutesBefore :=
            val (last (validNotificationOptions (Some 60)))\<rparr>)
     \<and> ((\<exists>opt \<in> set allOptions. val opt < 60) \<longrightarrow>
          notificationMinutesBefore (autoAdjust exampleDialog) < 60
          \<and> isNotificationValid (autoAdjust exampleDialog))"
    using autoAdjust_spec [OF due m] by simp
  from spec sel have
    "autoAdjust exampleDialog =
       exampleDialog\<lparr>notificationMinutesBefore :=
         val (last (validNotificationOptions (Some 60)))\<rparr>"
    by blast
  then have "notificationMinutesBefore (autoAdjust exampleDialog) = 30"
    using opts by simp
  moreover from spec ex have "isNotificationValid (autoAdjust exampleDialog)"
    by blast
  ultimately show ?thesis by simp
qed

subsection \<open>Rounding of doubles\<close>

lemma bitlen_rat_bounds:
  assumes "0 < a"
  shows "(2::rat) powi (bitlen a - 1) \<le> of_int a" and "of_int a < (2::rat) powi bitlen a"
proof -
  from bitlen_bounds [OF assms]
  have lo: "2 ^ nat (bitlen a - 1) \<le> a" and hi: "a < 2 ^ nat (bitlen a)" by auto
  have ge1: "1 \<le> bitlen a"
    using assms bitlen_eq_zero_iff [of a] bitlen_nonneg [of a] by linarith
  have "(of_int (2 ^ nat (bitlen a - 1)) :: rat) \<le> of_int a"
    using lo by (simp only: of_int_le_iff)
  then have "(2::rat) ^ nat (bitlen a - 1) \<le> of_int a" by simp
  moreover have "(2::rat) powi (bitlen a - 1) = 2 ^ nat (bitlen a - 1)"
    using ge1 by (simp add: power_int_def)
  ultimately show "(2::rat) powi (bitlen a - 1) \<le> of_int a" by simp
  have "(of_int a :: rat) < of_int (2 ^ nat (bitlen a))"
    using hi by (simp only: of_int_less_iff)
  then have "(of_int a :: rat) < 2 ^ nat (bitlen a)" by simp
  moreover have "(2::rat) powi bitlen a = 2 ^ nat (bitlen a)"
    using ge1 by (simp add: power_int_def)
  ultimately show "of_int a < (2::rat) powi bitlen a" by simp
qed

lemma ilog2_bounds:
  assumes "0 < q"
  shows "2 powi ilog2 q \<le> q" and "q < 2 powi (ilog2 q + 1)"
proof -
  obtain a b where qo: "quotient_of q = (a, b)" by (cases "quotient_of q") blast
  have b: "0 < b" using quotient_of_denom_pos [OF qo] .
  have q: "q = of_int a / of_int b" using quotient_of_div [OF qo] .
  have a: "0 < a"
  proof (rule ccontr)
    assume "\<not> 0 < a"
    then have "(of_int a :: rat) \<le> 0" by simp
    then have "q \<le> 0" using b q by (simp add: divide_le_0_iff)
    with assms show False by simp
  qed
  let ?d = "bitlen a - bitlen b"
  have pb: "(0::rat) < of_int b" using b by simp
  have up: "q < 2 powi (?d + 1)"
  proof -
    have "q < 2 powi bitlen a / of_int b"
      unfolding q using bitlen_rat_bounds(2) [OF a] pb by (simp add: divide_strict_right_mono)
    also have "\<dots> \<le> 2 powi bitlen a / 2 powi (bitlen b - 1)"
      using bitlen_rat_bounds(1) [OF b] by (simp add: frac_le)
    also have "\<dots> = 2 powi (bitlen a - (bitlen b - 1))"
      by (simp add: power_int_diff)
    finally show ?thesis by (simp add: algebra_simps)
  qed
  have low: "2 powi (?d - 1) \<le> q"
  proof -
    have "(2::rat) powi (?d - 1) = 2 powi (bitlen a - 1) / 2 powi bitlen b"
      by (simp add: power_int_diff [symmetric] algebra_simps)
    also have "\<dots> \<le> of_int a / 2 powi bitlen b"
      using bitlen_rat_bounds(1) [OF a] by (simp add: divide_right_mono)
    also have "\<dots> \<le> of_int a / of_int b"
      using bitlen_rat_bounds(2) [OF b] a pb by (simp add: frac_le)
    finally show ?thesis by (simp add: q)
  qed
  have il: "ilog2 q = (if 2 powi ?d \<le> q then ?d else ?d - 1)"
    by (simp add: ilog2_def qo Let_def)
  show "2 powi ilog2 q \<le> q"
    using low by (simp add: il)
  show "q < 2 powi (ilog2 q + 1)"
    using up by (auto simp: il not_le)
qed

lemma round_half_even_error: "\<bar>of_int (round_half_even x) - x\<bar> \<le> 1 / 2"
proof -
  have "of_int \<lfloor>x\<rfloor> \<le> x" and "x < of_int \<lfloor>x\<rfloor> + 1" by linarith+
  then show ?thesis
    by (auto simp: round_half_even_def Let_def abs_le_iff)
qed

lemma ilog2_ge:
  assumes "0 < q" and "2 powi k \<le> q"
  shows "k \<le> ilog2 q"
proof (rule ccontr)
  assume "\<not> k \<le> ilog2 q"
  then have "ilog2 q + 1 \<le> k" by simp
  then have "(2::rat) powi (ilog2 q + 1) \<le> 2 powi k"
    by (intro power_int_increasing) simp_all
  with ilog2_bounds(2) [OF assms(1)] assms(2) show False by simp
qed

lemma double_round_error:
  assumes pos: "0 < q" and normal: "2 powi (- 1022) \<le> q"
  shows "\<bar>double_round q - q\<bar> \<le> q / 2 ^ 53"
proof -
  have ge: "- 1022 \<le> ilog2 q" using ilog2_ge [OF pos normal] .
  define e where "e = ilog2 q - 52"
  define P :: rat where "P = 2 powi e"
  define m where "m = round_half_even (q / P)"
  have P: "0 < P" by (simp add: P_def zero_less_power_int)
  have dr: "double_round q = of_int m * P"
    using pos ge by (simp add: double_round_def Let_def e_def P_def m_def max_def)
  have "\<bar>of_int m - q / P\<bar> \<le> 1 / 2"
    unfolding m_def by (rule round_half_even_error)
  then have "\<bar>of_int m - q / P\<bar> * P \<le> 1 / 2 * P"
    using P by (intro mult_right_mono) simp_all
  moreover have "\<bar>of_int m - q / P\<bar> * P = \<bar>of_int m * P - q\<bar>"
  proof -
    have "\<bar>of_int m - q / P\<bar> * P = \<bar>(of_int m - q / P) * P\<bar>"
      using P by (simp add: abs_mult)
    also have "(of_int m - q / P) * P = of_int m * P - q"
      using P by (simp add: algebra_simps)
    finally show ?thesis .
  qed
  ultimately have err: "\<bar>double_round q - q\<bar> \<le> P / 2" by (simp add: dr)
  have "P = 2 powi ilog2 q / 2 powi 52"
    by (simp add: P_def e_def power_int_diff)
  then have "P / 2 = 2 powi ilog2 q / 2 ^ 53" by simp
  also have "\<dots> \<le> q / 2 ^ 53"
    using ilog2_bounds(1) [OF pos] by (simp add: divide_right_mono)
  finally show ?thesis using err by linarith
qed

lemma floor_perturb:
  fixes N D :: int and \<delta> :: rat
  assumes D: "0 < D" and nd: "\<not> D dvd N" and small: "\<bar>\<delta>\<bar> < 1 / of_int D"
  shows "\<lfloor>of_int N / of_int D + \<delta>\<rfloor> = \<lfloor>of_int N / of_int D :: rat\<rfloor>"
proof -
  define n where "n = N div D"
  define r where "r = N mod D"
  have r: "0 < r" "r < D"
    using D nd by (auto simp: r_def dvd_eq_mod_eq_0 pos_mod_sign pos_mod_bound
        intro: le_neq_trans)
  have N: "N = n * D + r" by (simp add: n_def r_def)
  have Dr: "(0::rat) < of_int D" using D by simp
  have w: "(of_int N :: rat) / of_int D = of_int n + of_int r / of_int D"
    using Dr by (simp add: N add_divide_distrib)
  have r1: "(1::rat) / of_int D \<le> of_int r / of_int D"
    using r Dr by (simp add: divide_right_mono)
  have "of_int r + (1::rat) \<le> of_int D"
    using r by (metis add.commute of_int_1 of_int_add of_int_le_iff zless_imp_add1_zle)
  then have "(of_int r + 1) / of_int D \<le> (of_int D :: rat) / of_int D"
    using Dr by (intro divide_right_mono) simp_all
  then have r2: "of_int r / of_int D + 1 / of_int D \<le> (1::rat)"
    using Dr by (simp add: add_divide_distrib)
  have fl: "\<lfloor>of_int N / of_int D :: rat\<rfloor> = n"
    by (simp add: n_def floor_divide_of_int_eq)
  have "\<lfloor>of_int N / of_int D + \<delta>\<rfloor> = n"
  proof (rule floor_unique)
    show "of_int n \<le> of_int N / of_int D + \<delta>"
      using small r1 w by (simp add: abs_less_iff; linarith)
    show "of_int N / of_int D + \<delta> < of_int n + 1"
      using small r2 w by (simp add: abs_less_iff; linarith)
  qed
  then show ?thesis using fl by simp
qed

lemma floor_perturb_tie:
  fixes n :: int and \<delta> :: rat
  assumes "\<bar>\<delta>\<bar> < 1"
  shows "\<lfloor>of_int n + \<delta>\<rfloor> = n \<or> \<lfloor>of_int n + \<delta>\<rfloor> = n - 1"
proof (cases "0 \<le> \<delta>")
  case True
  then have "\<lfloor>of_int n + \<delta>\<rfloor> = n"
    using assms by (intro floor_unique) (simp_all add: abs_less_iff)
  then show ?thesis by simp
next
  case False
  then have "\<lfloor>of_int n + \<delta>\<rfloor> = n - 1"
    using assms by (intro floor_unique) (simp_all add: abs_less_iff)
  then show ?thesis by simp
qed

lemma percentage_error:
  fixes c t :: nat
  assumes t: "0 < t" and c: "0 < c" and ct: "c \<le> t" and bound: "t < 2 ^ 32"
  shows "\<bar>js_mul (js_div (of_nat c) (of_nat t)) 100 - 100 * of_nat c / of_nat t\<bar> < 1 / 2 ^ 34"
proof -
  define q :: rat where "q = of_nat c / of_nat t"
  define y where "y = double_round q"
  define z where "z = y * 100"
  have tpos: "(0::rat) < of_nat t" using t by simp
  have q_pos: "0 < q" using c t by (simp add: q_def)
  have q_le: "q \<le> 1" using ct tpos by (simp add: q_def)
  have "(of_nat t :: rat) \<le> 2 ^ 32"
    using bound by (metis less_imp_le of_nat_le_iff of_nat_numeral of_nat_power)
  then have "1 / 2 ^ 32 \<le> 1 / (of_nat t :: rat)"
    using tpos by (intro divide_left_mono) simp_all
  also have "\<dots> \<le> q"
    using c tpos by (simp add: q_def divide_right_mono)
  finally have q_ge: "1 / 2 ^ 32 \<le> q" .
  have small: "(2::rat) powi (- 1022) \<le> 1 / 2 ^ 33"
    by (simp add: power_int_minus_divide)
  have q_norm: "2 powi (- 1022) \<le> q" using small q_ge by simp
  have e1: "\<bar>y - q\<bar> \<le> q / 2 ^ 53"
    unfolding y_def by (rule double_round_error [OF q_pos q_norm])
  have h: "q / 2 ^ 53 \<le> q / 2" using q_pos by simp
  have y_lo: "q / 2 \<le> y" using e1 h by linarith
  have y_hi: "y \<le> 2 * q" using e1 h q_pos by linarith
  have z_pos: "0 < z" using y_lo q_pos by (simp add: z_def)
  have z_norm: "2 powi (- 1022) \<le> z"
    using small y_lo q_ge by (simp add: z_def)
  have z_hi: "z \<le> 200" using y_hi q_le by (simp add: z_def)
  have e2: "\<bar>double_round z - z\<bar> \<le> z / 2 ^ 53"
    by (rule double_round_error [OF z_pos z_norm])
  have e3: "\<bar>z - 100 * q\<bar> \<le> 100 * (q / 2 ^ 53)"
    unfolding z_def using e1 by linarith
  have "\<bar>double_round z - 100 * q\<bar> \<le> z / 2 ^ 53 + 100 * (q / 2 ^ 53)"
    using e2 e3 by linarith
  also have "\<dots> \<le> 200 / 2 ^ 53 + 100 * (1 / 2 ^ 53)"
    using z_hi q_le by (simp add: divide_right_mono)
  also have "\<dots> < 1 / 2 ^ 34" by simp
  finally show ?thesis
    by (simp add: js_mul_def js_div_def q_def y_def z_def)
qed

lemma percentage_rounding:
  fixes c t :: nat
  assumes t: "0 < t" and ct: "c \<le> t" and bound: "t < 2 ^ 32"
  defines "x \<equiv> 100 * of_nat c / of_nat t :: rat"
  defines "p \<equiv> Math_round (js_mul (js_div (of_nat c) (of_nat t)) 100)"
  shows "p = \<lfloor>x + 1 / 2\<rfloor> \<or> (of_int \<lfloor>x + 1 / 2\<rfloor> = x + 1 / 2 \<and> p = \<lfloor>x + 1 / 2\<rfloor> - 1)"
proof (cases "c = 0")
  case True
  then show ?thesis
    by (simp add: p_def x_def js_div_def js_mul_def double_round_def Math_round_def)
next
  case False
  then have c: "0 < c" by simp
  define \<delta> where "\<delta> = js_mul (js_div (of_nat c) (of_nat t)) 100 - x"
  define N :: int where "N = 200 * int c + int t"
  define D :: int where "D = 2 * int t"
  have D: "0 < D" using t by (simp add: D_def)
  have \<delta>: "\<bar>\<delta>\<bar> < 1 / 2 ^ 34"
    unfolding \<delta>_def x_def by (rule percentage_error [OF t c ct bound])
  have w: "x + 1 / 2 = of_int N / of_int D"
    using t by (simp add: x_def N_def D_def field_simps)
  have "of_int N / of_int D + \<delta> = js_mul (js_div (of_nat c) (of_nat t)) 100 + 1 / 2"
    by (simp add: \<delta>_def w [symmetric])
  then have p: "p = \<lfloor>of_int N / of_int D + \<delta>\<rfloor>"
    by (simp add: p_def Math_round_def)
  have "int t < 2 ^ 32" using bound by (metis of_nat_less_iff of_nat_numeral of_nat_power)
  then have "(of_int D :: rat) \<le> 2 ^ 34" by (simp add: D_def)
  then have "1 / 2 ^ 34 \<le> 1 / (of_int D :: rat)"
    using D by (intro divide_left_mono) simp_all
  with \<delta> have small: "\<bar>\<delta>\<bar> < 1 / of_int D" by simp
  show ?thesis
  proof (cases "D dvd N")
    case False
    from floor_perturb [OF D False small] show ?thesis
      by (simp add: p w)
  next
    case True
    then obtain n where n: "N = D * n" by (auto simp: dvd_def)
    have wn: "of_int N / of_int D = (of_int n :: rat)"
      using D by (simp add: n)
    have "\<bar>\<delta>\<bar> < 1" using \<delta> by simp
    from floor_perturb_tie [OF this, of n] show ?thesis
      by (auto simp: p w wn)
  qed
qed

lemma round_half_even_of_int [simp]: "round_half_even (of_int k) = k"
  by (simp add: round_half_even_def Let_def)

lemma double_round_exact:
  fixes n j :: int
  assumes small: "\<bar>n\<bar> < 2 ^ 53" and j: "- 1074 \<le> j"
  shows "double_round (of_int n * 2 powi j) = of_int n * 2 powi j"
proof (cases "n = 0")
  case True
  then show ?thesis by (simp add: double_round_def)
next
  case False
  define q :: rat where "q = of_int n * 2 powi j"
  have pj: "(0::rat) < 2 powi j" by (simp add: zero_less_power_int)
  have absq: "\<bar>q\<bar> = of_int \<bar>n\<bar> * 2 powi j"
    using pj by (simp add: q_def abs_mult)
  have pos: "0 < \<bar>q\<bar>" using False pj by (simp add: q_def)
  define e where "e = max (ilog2 \<bar>q\<bar>) (- 1022) - 52"
  have "(of_int \<bar>n\<bar> :: rat) < of_int (2 ^ 53)"
    using small by (simp only: of_int_less_iff)
  then have "\<bar>q\<bar> < 2 ^ 53 * 2 powi j"
    unfolding absq using pj by (intro mult_strict_right_mono) simp_all
  also have "\<dots> = (2::rat) powi (53 + j)"
    by (simp add: power_int_add)
  finally have lt: "(2::rat) powi ilog2 \<bar>q\<bar> < 2 powi (53 + j)"
    using ilog2_bounds(1) [OF pos] by simp
  have "ilog2 \<bar>q\<bar> < 53 + j"
  proof (rule ccontr)
    assume "\<not> ilog2 \<bar>q\<bar> < 53 + j"
    then have "53 + j \<le> ilog2 \<bar>q\<bar>" by simp
    then have "(2::rat) powi (53 + j) \<le> 2 powi ilog2 \<bar>q\<bar>"
      by (intro power_int_increasing) simp_all
    with lt show False by simp
  qed
  then have ej: "e \<le> j" using j by (simp add: e_def)
  define k where "k = nat (j - e)"
  have "(2::rat) powi j = 2 powi (j - e) * 2 powi e"
    by (simp add: power_int_add [symmetric])
  also have "(2::rat) powi (j - e) = 2 ^ k"
    using ej by (simp add: k_def power_int_def)
  finally have split: "(2::rat) powi j = 2 ^ k * 2 powi e" .
  have pe: "(0::rat) < 2 powi e" by (simp add: zero_less_power_int)
  have "\<bar>q\<bar> / 2 powi e = of_int \<bar>n\<bar> * 2 ^ k"
    using pe by (simp add: absq split)
  also have "\<dots> = of_int (\<bar>n\<bar> * 2 ^ k)" by simp
  finally have r: "round_half_even (\<bar>q\<bar> / 2 powi e) = \<bar>n\<bar> * 2 ^ k"
    by (simp only: round_half_even_of_int)
  have "double_round q = sgn q * of_int (\<bar>n\<bar> * 2 ^ k) * 2 powi e"
    using pos r by (simp add: double_round_def Let_def e_def [symmetric])
  also have "\<dots> = sgn q * (of_int \<bar>n\<bar> * 2 powi j)"
    by (simp add: split)
  also have "\<dots> = sgn q * \<bar>q\<bar>" by (simp add: absq)
  also have "\<dots> = q" by (simp add: sgn_mult_abs)
  finally show ?thesis by (simp add: q_def)
qed

lemma to_number_exact:
  fixes n j :: int
  assumes small: "\<bar>n\<bar> < 2 ^ 53" and "- 1074 \<le> j" and "j \<le> 64"
  shows "to_number (of_int n * 2 powi j) = Finite (of_int n * 2 powi j)"
proof -
  have pj: "(0::rat) < 2 powi j" by (simp add: zero_less_power_int)
  have "\<bar>(of_int n :: rat) * 2 powi j\<bar> = of_int \<bar>n\<bar> * 2 powi j"
    using pj by (simp add: abs_mult)
  also have "\<dots> < 2 ^ 53 * 2 powi j"
  proof -
    have "(of_int \<bar>n\<bar> :: rat) < of_int (2 ^ 53)" using small by (simp only: of_int_less_iff)
    then show ?thesis using pj by (intro mult_strict_right_mono) simp_all
  qed
  also have "\<dots> = (2::rat) powi (53 + j)" by (simp add: power_int_add)
  also have "\<dots> \<le> 2 powi 1024" using assms(3) by (intro power_int_increasing) simp_all
  finally have "\<bar>(of_int n :: rat) * 2 powi j\<bar> < 2 ^ 1024" by simp
  then have "\<not> 2 ^ 1024 \<le> (of_int n :: rat) * 2 powi j"
    "\<not> (of_int n :: rat) * 2 powi j \<le> - (2 ^ 1024)"
    by (simp_all add: abs_less_iff)
  then show ?thesis
    by (simp add: to_number_def Let_def double_round_exact [OF small assms(2)])
qed

subsection \<open>Completion statistics\<close>

lemma fortyTasks_counts:
  "stats_total fortyTasks = 40" "stats_completed fortyTasks = 23" "stats_active fortyTasks = 17"
  by (simp_all add: fortyTasks_def stats_total_def stats_completed_def stats_active_def
      exampleTask_def)

lemma fortyTasks_rate: "completionRate fortyTasks = 57"
proof -
  have "Math_round (js_mul (js_div 23 40) 100) = 57" by code_simp
  then show ?thesis by (simp add: completionRate_def fortyTasks_counts)
qed

lemma fortyTasks_spec_rate: "spec_completionRate fortyTasks = 58"
proof -
  have "round (100 * 23 / 40 :: rat) = 58" by code_simp
  then show ?thesis by (simp add: spec_completionRate_def fortyTasks_counts)
qed

text \<open>
  Claim C7, as stated, fails for the rate: of forty tasks with twenty-three completed,
  the exact percentage is 57.5, which rounds to 58, while the screen computes
  \<open>(23 / 40) * 100\<close> in doubles, obtains 57.49999999999999 and shows 57.
\<close>

theorem completionRate_counterexample:
  "completionRate fortyTasks = 57 \<and> spec_completionRate fortyTasks = 58"
  by (simp add: fortyTasks_rate fortyTasks_spec_rate)

text \<open>
  Claim C7, amended. For a task list (an array, hence shorter than \<open>2 ^ 32\<close>):
  \<open>completed\<close> counts the tasks with status \<open>completed\<close>, \<open>active\<close> those with status
  \<open>upcoming\<close> or \<open>overdue\<close>; the rate is 0 for the empty list; otherwise it is an
  integer nearest to \<open>100 * completed / total\<close>, and it is the rounded value of that
  quotient except possibly when the quotient lies exactly half-way between two
  integers, where it may be the lower neighbour.
\<close>

theorem completionRate_spec:
  assumes "length ts < 2 ^ 32"
  shows "stats_completed ts = card {i. i < length ts \<and> task.status (ts ! i) = completed}
       \<and> stats_active ts =
           card {i. i < length ts
                    \<and> (task.status (ts ! i) = upcoming \<or> task.status (ts ! i) = overdue)}
       \<and> (ts = [] \<longrightarrow> completionRate ts = 0)
       \<and> (ts \<noteq> [] \<longrightarrow>
            \<bar>of_int (completionRate ts)
               - 100 * of_nat (stats_completed ts) / (of_nat (stats_total ts) :: rat)\<bar> \<le> 1 / 2)
       \<and> (completionRate ts = spec_completionRate ts
          \<or> (of_int (spec_completionRate ts)
                = 100 * of_nat (stats_completed ts) / (of_nat (stats_total ts) :: rat) + 1 / 2
              \<and> completionRate ts = spec_completionRate ts - 1))"
proof -
  let ?c = "stats_completed ts" and ?t = "stats_total ts"
  let ?x = "100 * of_nat ?c / of_nat ?t :: rat"
  have counts: "stats_completed ts = card {i. i < length ts \<and> task.status (ts ! i) = completed}"
    "stats_active ts =
           card {i. i < length ts
                    \<and> (task.status (ts ! i) = upcoming \<or> task.status (ts ! i) = overdue)}"
    by (simp_all add: stats_completed_def stats_active_def length_filter_conv_card)
  have empty: "completionRate ts = 0" if "ts = []"
    using that by (simp add: completionRate_def stats_total_def)
  have main: "(completionRate ts = spec_completionRate ts
          \<or> (of_int (spec_completionRate ts) = ?x + 1 / 2
              \<and> completionRate ts = spec_completionRate ts - 1))"
  proof (cases "ts = []")
    case True
    then show ?thesis
      by (simp add: completionRate_def spec_completionRate_def stats_total_def)
  next
    case False
    then have t: "0 < ?t" by (simp add: stats_total_def)
    have ct: "?c \<le> ?t" by (simp add: stats_completed_def stats_total_def)
    have b: "?t < 2 ^ 32" using assms by (simp add: stats_total_def)
    from percentage_rounding [OF t ct b] t show ?thesis
      by (simp add: completionRate_def spec_completionRate_def round_def)
  qed
  have near: "\<bar>of_int (completionRate ts) - ?x\<bar> \<le> 1 / 2" if "ts \<noteq> []"
  proof -
    have t: "0 < ?t" using that by (simp add: stats_total_def)
    have sp: "spec_completionRate ts = \<lfloor>?x + 1 / 2\<rfloor>"
      using t by (simp add: spec_completionRate_def round_def)
    have "of_int \<lfloor>?x + 1 / 2\<rfloor> \<le> ?x + 1 / 2" "?x + 1 / 2 < of_int \<lfloor>?x + 1 / 2\<rfloor> + 1"
      by linarith+
    then have "\<bar>of_int (spec_completionRate ts) - ?x\<bar> \<le> 1 / 2"
      unfolding sp by linarith
    with main show ?thesis by auto
  qed
  show ?thesis using counts empty main near by blast
qed

theorem completionRate_spec_witness:
  "length fortyTasks < 2 ^ 32
   \<and> \<bar>of_int (completionRate fortyTasks) - (115 / 2 :: rat)\<bar> \<le> 1 / 2
   \<and> stats_completed fortyTasks
       = card {i. i < length fortyTasks \<and> task.status (fortyTasks ! i) = completed}"
proof -
  have len: "length fortyTasks < 2 ^ 32" by (simp add: fortyTasks_def)
  have ne: "fortyTasks \<noteq> []" by (simp add: fortyTasks_def)
  have "\<bar>of_int (completionRate fortyTasks)
               - 100 * of_nat (stats_completed fortyTasks)
                   / (of_nat (stats_total fortyTasks) :: rat)\<bar> \<le> 1 / 2"
    using completionRate_spec [OF len] ne by blast
  moreover have "stats_completed fortyTasks
       = card {i. i < length fortyTasks \<and> task.status (fortyTasks ! i) = completed}"
    using completionRate_spec [OF len] by blast
  ultimately show ?thesis using len by (simp add: fortyTasks_counts)
qed

subsection \<open>Scheduling a reminder\<close>

lemma newDate_of_int:
  assumes "\<bar>n\<bar> \<le> 8640000000000000"
  shows "newDate (Finite (of_int n)) = DateAt n"
proof -
  have "\<bar>(of_int n :: rat)\<bar> \<le> of_int 8640000000000000"
    using assms by (simp only: of_int_abs [symmetric] of_int_le_iff)
  then have "\<not> 8640000000000000 < \<bar>(of_int n :: rat)\<bar>" by simp
  then show ?thesis by (simp add: newDate_def)
qed

lemma triggerDate_exact:
  assumes due: "\<bar>due\<bar> \<le> 8640000000000000"
    and trig: "\<bar>due - m * 60000\<bar> \<le> 8640000000000000"
  shows "triggerDate (DateAt due) (Finite (of_int m)) = DateAt (due - m * 60000)"
proof -
  have m: "\<bar>m * 1875\<bar> < 2 ^ 53" using due trig by (simp add: abs_le_iff abs_less_iff)
  have eq: "(of_int m :: rat) * 60000 = of_int (m * 1875) * 2 powi 5" by simp
  have prod: "to_number (of_int m * 60000) = Finite (of_int m * 60000)"
    unfolding eq by (rule to_number_exact [OF m]) simp_all
  have d: "\<bar>due - m * 60000\<bar> < 2 ^ 53" using trig by simp
  have eq2: "(of_int due :: rat) - of_int m * 60000 = of_int (due - m * 60000) * 2 powi 0"
    by simp
  have "to_number (of_int (due - m * 60000) * 2 powi 0)
          = Finite (of_int (due - m * 60000) * 2 powi 0)"
    by (rule to_number_exact [OF d]) simp_all
  then have diff: "to_number (of_int due - of_int m * 60000) = Finite (of_int (due - m * 60000))"
    unfolding eq2 [symmetric] by (simp only: eq2 power_int_0_right mult_1_right)
  have p1: "number_times (Finite (of_int m)) (Finite 60000) = Finite (of_int m * 60000)"
    by (simp only: number_times.simps prod)
  have p2: "number_minus (Finite (of_int due)) (Finite (of_int m * 60000))
              = Finite (of_int (due - m * 60000))"
    by (simp only: number_minus.simps diff)
  show ?thesis
    unfolding triggerDate_def getTime_def
    by (simp only: js_date.case p1 p2 newDate_of_int [OF trig])
qed

lemma triggerDate_beyond: "triggerDate (DateAt 0) (Finite 200000000000000) = InvalidDate"
proof -
  have n: "\<bar>11444091796875 :: int\<bar> < 2 ^ 53" by simp
  have "to_number (of_int 11444091796875 * 2 powi 20) = Finite (of_int 11444091796875 * 2 powi 20)"
    by (rule to_number_exact [OF n]) simp_all
  then have prod: "to_number (200000000000000 * 60000) = Finite 12000000000000000000"
    by simp
  have n': "\<bar>- 11444091796875 :: int\<bar> < 2 ^ 53" by simp
  have "to_number (of_int (- 11444091796875) * 2 powi 20)
          = Finite (of_int (- 11444091796875) * 2 powi 20)"
    by (rule to_number_exact [OF n']) simp_all
  then have diff: "to_number (0 - 12000000000000000000) = Finite (- 12000000000000000000)"
    by simp
  have p1: "number_times (Finite 200000000000000) (Finite 60000) = Finite 12000000000000000000"
    by (simp only: number_times.simps prod)
  have p2: "number_minus (Finite (of_int 0)) (Finite 12000000000000000000)
              = Finite (- 12000000000000000000)"
    by (simp only: number_minus.simps diff of_int_0)
  have "triggerDate (DateAt 0) (Finite 200000000000000) = newDate (Finite (- 12000000000000000000))"
    unfolding triggerDate_def getTime_def by (simp only: js_date.case p1 p2)
  then show ?thesis by (simp add: newDate_def)
qed

lemma triggerDate_fraction: "triggerDate (DateAt 3600000) (Finite (1 / 65536)) = DateAt 3599999"
proof -
  have n: "\<bar>1875 :: int\<bar> < 2 ^ 53" by simp
  have "to_number (of_int 1875 * 2 powi (- 11)) = Finite (of_int 1875 * 2 powi (- 11))"
    by (rule to_number_exact [OF n]) simp_all
  then have prod: "to_number (1 / 65536 * 60000) = Finite (1875 / 2048)"
    by (simp add: power_int_minus)
  have n': "\<bar>7372798125 :: int\<bar> < 2 ^ 53" by simp
  have "to_number (of_int 7372798125 * 2 powi (- 11))
          = Finite (of_int 7372798125 * 2 powi (- 11))"
    by (rule to_number_exact [OF n']) simp_all
  then have diff: "to_number (3600000 - 1875 / 2048) = Finite (7372798125 / 2048)"
    by (simp add: power_int_minus)
  have p1: "number_times (Finite (1 / 65536)) (Finite 60000) = Finite (1875 / 2048)"
    by (simp only: number_times.simps prod)
  have p2: "number_minus (Finite (of_int 3600000)) (Finite (1875 / 2048))
              = Finite (7372798125 / 2048)"
    by (simp only: number_minus.simps diff of_int_numeral)
  have fl: "\<lfloor>7372798125 / 2048 :: rat\<rfloor> = 3599999"
    by (simp add: floor_eq_iff)
  have "triggerDate (DateAt 3600000) (Finite (1 / 65536)) = newDate (Finite (7372798125 / 2048))"
    unfolding triggerDate_def getTime_def by (simp only: js_date.case p1 p2)
  then show ?thesis by (simp add: newDate_def fl)
qed

text \<open>
  Claim C1, as stated for every due date and every lead time, fails. With the due date
  at time \<open>0\<close>, the clock at \<open>0\<close> and a lead time of \<open>2e14\<close> minutes, the time
  \<open>dueDate - minutesBefore * 60000\<close> is far in the past, but it is outside the range of
  a \<^verbatim>\<open>Date\<close>: the trigger is an invalid date, the comparison with the clock is false, and
  the request is passed to the scheduler, whose identifier is returned. And with a lead
  time of \<open>1 / 65536\<close> minute the trigger is a whole number of milliseconds, \<open>3599999\<close>,
  which is not \<open>dueDate - minutesBefore * 60000\<close>.
\<close>

theorem scheduleTaskNotification_counterexample:
  "(0::int) - 200000000000000 * 60000 \<le> 0
   \<and> fst (scheduleTaskNotification (Some (js ''n1'')) 0 (js ''t1'') (js ''Pay rent'')
            (DateAt 0) (Finite 200000000000000) []) = Some (js ''n1'')
   \<and> map identifier'
        (snd (scheduleTaskNotification (Some (js ''n1'')) 0 (js ''t1'') (js ''Pay rent'')
                (DateAt 0) (Finite 200000000000000) [])) = [js ''n1'']
   \<and> map trigger
        (snd (scheduleTaskNotification (Some (js ''n1'')) 0 (js ''t1'') (js ''Pay rent'')
                (DateAt 0) (Finite 200000000000000) [])) = [DateTrigger InvalidDate]
   \<and> triggerDate (DateAt 3600000) (Finite (1 / 65536)) = DateAt 3599999
   \<and> (3600000 :: rat) - 1 / 65536 * 60000 \<noteq> 3599999"
  by (simp add: scheduleTaskNotification_def scheduleNotificationAsync_def triggerDate_beyond
      triggerDate_fraction date_le_def)

text \<open>
  Claim C1, amended. For a valid due date and a lead time of a whole number of minutes
  such that \<open>dueDate - minutesBefore * 60000\<close> is in the range of a \<^verbatim>\<open>Date\<close>, whatever the
  task id, the title and the clock reading: the trigger is exactly that time; when it
  is not after the clock reading, \<^verbatim>\<open>scheduleTaskNotification\<close> returns \<^verbatim>\<open>null\<close> and leaves the
  scheduler untouched; when it is, one request for the task with exactly that trigger is
  passed to the scheduler, and the result is the scheduler's identifier, or \<^verbatim>\<open>null\<close> with
  nothing stored when the scheduler throws.
\<close>

theorem scheduleTaskNotification_spec:
  assumes due: "\<bar>due\<bar> \<le> 8640000000000000"
    and trig: "\<bar>due - m * 60000\<bar> \<le> 8640000000000000"
  shows "triggerDate (DateAt due) (Finite (of_int m)) = DateAt (due - m * 60000)
       \<and> (due - m * 60000 \<le> now \<longrightarrow>
            scheduleTaskNotification os now taskId taskTitle (DateAt due) (Finite (of_int m))
              sched = (None, sched))
       \<and> (now < due - m * 60000 \<longrightarrow>
            scheduleTaskNotification None now taskId taskTitle (DateAt due)
              (Finite (of_int m)) sched = (None, sched)
            \<and> (\<forall>nid. \<exists>c. data_taskId c = Some taskId
                  \<and> data_type c = Some (js ''task_reminder'')
                  \<and> body c = [Str (js [CHR 0x22]), Str taskTitle,
                         Str (js [CHR 0x22] @ js '' expir'' @ [0x103] @ js '' '' @ [0xEE]
                              @ js ''n ''),
                         Num (Finite (of_int m)), Str (js '' minute!'')]
                  \<and> scheduleTaskNotification (Some nid) now taskId taskTitle (DateAt due)
                       (Finite (of_int m)) sched
                     = (Some nid,
                        sched @ [\<lparr>identifier' = nid, content = c,
                                  trigger = DateTrigger (DateAt (due - m * 60000))\<rparr>])))"
  by (simp add: scheduleTaskNotification_def scheduleNotificationAsync_def date_le_def
      triggerDate_exact [OF due trig])

theorem scheduleTaskNotification_spec_witness:
  "triggerDate (DateAt 9000000) (Finite 60) = DateAt 5400000
   \<and> scheduleTaskNotification (Some (js ''n1'')) 7200000 (js ''t1'') (js ''Pay rent'')
        (DateAt 9000000) (Finite 60) [] = (None, [])
   \<and> fst (scheduleTaskNotification (Some (js ''n1'')) 1000 (js ''t1'') (js ''Pay rent'')
          (DateAt 9000000) (Finite 60) []) = Some (js ''n1'')
   \<and> map trigger
        (snd (scheduleTaskNotification (Some (js ''n1'')) 1000 (js ''t1'') (js ''Pay rent'')
          (DateAt 9000000) (Finite 60) []))
      = [DateTrigger (DateAt 5400000)]"
proof -
  have due: "\<bar>9000000 :: int\<bar> \<le> 8640000000000000" by simp
  have trig: "\<bar>9000000 - 60 * 60000 :: int\<bar> \<le> 8640000000000000" by simp
  note spec = scheduleTaskNotification_spec [OF due trig]
  have a: "triggerDate (DateAt 9000000) (Finite 60) = DateAt 5400000"
    using spec by simp
  have b: "scheduleTaskNotification (Some (js ''n1'')) 7200000 (js ''t1'') (js ''Pay rent'')
        (DateAt 9000000) (Finite 60) [] = (None, [])"
    using spec [of 7200000 "Some (js ''n1'')" "js ''t1''" "js ''Pay rent''" "[]"] by simp
  obtain c where "data_taskId c = Some (js ''t1'')"
    and "scheduleTaskNotification (Some (js ''n1'')) 1000 (js ''t1'') (js ''Pay rent'')
          (DateAt 9000000) (Finite 60) []
         = (Some (js ''n1''),
            [\<lparr>identifier' = js ''n1'', content = c, trigger = DateTrigger (DateAt 5400000)\<rparr>])"
    using spec [of 1000 None "js ''t1''" "js ''Pay rent''" "[]"] by auto
  then show ?thesis using a b by simp
qed

subsection \<open>Submitting the dialog\<close>

lemma trim_empty_iff: "trim s = [] \<longleftrightarrow> (\<forall>c \<in> set s. is_js_whitespace c)"
proof -
  have "trim s = [] \<longleftrightarrow> (\<forall>c \<in> set (dropWhile is_js_whitespace s). is_js_whitespace c)"
    by (simp add: trim_def dropWhile_eq_Nil_conv)
  also have "\<dots> \<longleftrightarrow> dropWhile is_js_whitespace s = []"
    by (metis dropWhile_eq_Nil_conv dropWhile_idem)
  also have "\<dots> \<longleftrightarrow> (\<forall>c \<in> set s. is_js_whitespace c)"
    by (simp add: dropWhile_eq_Nil_conv)
  finally show ?thesis .
qed

text \<open>
  Claim C9. With a title that is empty or consists of white space only, or with no
  category selected, \<^verbatim>\<open>handleSubmit\<close> (in each of the three variants) returns at once: the
  data context and the remote tables, the scheduler, the dialog's hooks, the alerts and
  the dismissal count are all unchanged.
\<close>

theorem handleSubmit_rejects_blank:
  assumes "(\<forall>c \<in> set (dialog.title (dlg w)). is_js_whitespace c) \<or> categoryId (dlg w) = []"
  shows "handleSubmit reply e os now w = w
       \<and> handleSubmit_reconciling reply e os now w = w
       \<and> handleSubmit_plain reply e w = w"
proof -
  have "trim (dialog.title (dlg w)) = [] \<or> categoryId (dlg w) = []"
    using assms by (simp add: trim_empty_iff)
  then show ?thesis
    by (auto simp: handleSubmit_def handleSubmit_reconciling_def handleSubmit_plain_def Let_def)
qed

theorem handleSubmit_rejects_blank_witness:
  "handleSubmit None exampleEnv (Some (js ''n2'')) 1000 blankWorld = blankWorld
   \<and> handleSubmit_reconciling None exampleEnv (Some (js ''n2'')) 1000 blankWorld = blankWorld
   \<and> handleSubmit_plain None exampleEnv blankWorld = blankWorld"
proof -
  have "(\<forall>c \<in> set (dialog.title (dlg blankWorld)). is_js_whitespace c)
        \<or> categoryId (dlg blankWorld) = []"
    by (simp add: blankWorld_def is_js_whitespace_def)
  then show ?thesis by (rule handleSubmit_rejects_blank)
qed

lemma remote_tasks_ensureDefaultCategory [simp]:
  "remote_tasks (ensureDefaultCategory e uid s) = remote_tasks s"
  by (simp add: ensureDefaultCategory_def Let_def split: option.splits)

lemma remote_tasks_loadData [simp]: "remote_tasks (loadData e s) = remote_tasks s"
  by (simp add: loadData_def Let_def split: option.splits)

lemma remote_tasks_refreshData [simp]: "remote_tasks (refreshData e s) = remote_tasks s"
  by (simp add: refreshData_def)

lemma isOverdue_iff: "minutesUntilDue d = Some m \<Longrightarrow> isOverdue d \<longleftrightarrow> m \<le> 0"
  by (simp add: isOverdue_def)

lemma saveTask_create:
  "saveTask None e None td s = (case user s of
      None \<Rightarrow> Inl (Error (js ''User not authenticated''), s)
    | Some uid \<Rightarrow> Inr (None, refreshData e
         (s\<lparr>remote_tasks := remote_tasks s @
               [inserted_task e uid (length (tasks s)) (as_new_task td)]\<rparr>)))"
  by (simp add: saveTask_def addTask_def split: option.splits)

lemma saveTask_edit:
  "saveTask None e (Some t) td s =
     Inr (Some (spread t td),
          refreshData e (s\<lparr>remote_tasks :=
             map (\<lambda>r. if task.id r = task.id t then update_task_row (as_updates td) r else r)
               (remote_tasks s)\<rparr>))"
  by (simp add: saveTask_def updateTask_def)

lemma saveTask_rejected:
  "saveTask (Some err) e ed td s = Inl (x, s') \<Longrightarrow> s' = s"
  by (auto simp: saveTask_def updateTask_def addTask_def split: option.splits)

lemma handleSubmit_remote_tasks:
  assumes ttl: "trim (dialog.title (dlg w)) \<noteq> []" and cat: "categoryId (dlg w) \<noteq> []"
    and go: "\<not> (enableNotification (dlg w) \<and> dueDate (dlg w) \<noteq> None \<and> \<not> isOverdue (dlg w)
              \<and> \<not> isNotificationValid (dlg w))"
  shows "remote_tasks (data (handleSubmit reply e os now w))
     = (case saveTask reply e (task_prop w) (taskData (dlg w)) (data w) of
          Inl (err, s') \<Rightarrow> remote_tasks s'
        | Inr (saved, s') \<Rightarrow> remote_tasks s')"
  using assms
  by (auto simp: handleSubmit_def Let_def split: sum.splits prod.splits option.splits)

text \<open>
  Claim C10. When the dialog of the final variant is submitted with a due date that is
  already past (\<open>minutesUntilDue \<le> 0\<close>), whatever the toggle and the selected lead time
  are: no reminder is scheduled; a created task is stored with
  \<open>enable_notification = false\<close> and \<open>notification_minutes_before = null\<close>; an edited task
  is updated to these values; and when the remote service rejects the request nothing
  is stored.
\<close>

theorem handleSubmit_overdue:
  assumes mud: "minutesUntilDue (dlg w) = Some m" and ov: "m \<le> 0"
    and ttl: "trim (dialog.title (dlg w)) \<noteq> []" and cat: "categoryId (dlg w) \<noteq> []"
  shows "scheduled (handleSubmit reply e os now w) = scheduled w
       \<and> (task_prop w = None \<and> reply = None \<and> user (data w) \<noteq> None \<longrightarrow>
            (\<exists>row. remote_tasks (data (handleSubmit reply e os now w))
                      = remote_tasks (data w) @ [row]
                  \<and> task.title row = trim (dialog.title (dlg w))
                  \<and> task.enable_notification row = Some False
                  \<and> task.notification_minutes_before row = None))
       \<and> (\<forall>t. task_prop w = Some t \<and> reply = None \<longrightarrow>
            remote_tasks (data (handleSubmit reply e os now w))
              = map (\<lambda>r. if task.id r = task.id t
                         then r\<lparr>task.title := trim (dialog.title (dlg w)),
                               task.description := Some (trim (dialog.description (dlg w))),
                               task.status := dialog.status (dlg w),
                               task.category_id := categoryId (dlg w),
                               task.due_date := dueDate (dlg w),
                               task.notification_minutes_before := None,
                               task.enable_notification := Some False\<rparr>
                         else r) (remote_tasks (data w)))
       \<and> (reply \<noteq> None \<longrightarrow>
            remote_tasks (data (handleSubmit reply e os now w)) = remote_tasks (data w))"
proof -
  have od: "isOverdue (dlg w)" using mud ov by (simp add: isOverdue_iff)
  obtain due where due: "dueDate (dlg w) = Some due"
    using mud by (auto simp: minutesUntilDue_def split: option.splits)
  have nopos: "\<not> 0 < m" using ov by simp
  have go: "\<not> (enableNotification (dlg w) \<and> dueDate (dlg w) \<noteq> None \<and> \<not> isOverdue (dlg w)
              \<and> \<not> isNotificationValid (dlg w))"
    using od by simp
  note rt = handleSubmit_remote_tasks [OF ttl cat go]
  have sched: "scheduled (handleSubmit reply e os now w) = scheduled w"
    using ttl cat od mud due nopos
    by (auto simp: handleSubmit_def Let_def split: sum.splits prod.splits option.splits)
  have create: "\<exists>row. remote_tasks (data (handleSubmit reply e os now w))
                      = remote_tasks (data w) @ [row]
                  \<and> task.title row = trim (dialog.title (dlg w))
                  \<and> task.enable_notification row = Some False
                  \<and> task.notification_minutes_before row = None"
    if "task_prop w = None" "reply = None" "user (data w) \<noteq> None"
    using that od
    by (auto simp: rt saveTask_create taskData_def as_new_task_def inserted_task_def orElse_def)
  have edit: "remote_tasks (data (handleSubmit reply e os now w))
              = map (\<lambda>r. if task.id r = task.id t
                         then r\<lparr>task.title := trim (dialog.title (dlg w)),
                               task.description := Some (trim (dialog.description (dlg w))),
                               task.status := dialog.status (dlg w),
                               task.category_id := categoryId (dlg w),
                               task.due_date := dueDate (dlg w),
                               task.notification_minutes_before := None,
                               task.enable_notification := Some False\<rparr>
                         else r) (remote_tasks (data w))"
    if "task_prop w = Some t" "reply = None" for t
  proof -
    have row: "update_task_row (as_updates (taskData (dlg w))) r
        = r\<lparr>task.title := trim (dialog.title (dlg w)),
               task.description := Some (trim (dialog.description (dlg w))),
               task.status := dialog.status (dlg w),
               task.category_id := categoryId (dlg w),
               task.due_date := dueDate (dlg w),
               task.notification_minutes_before := None,
               task.enable_notification := Some False\<rparr>" for r
      using od due
      by (simp add: update_task_row_def as_updates_def taskData_def no_task_updates_def
          orElse_def)
    show ?thesis
      using that by (simp add: rt saveTask_edit row)
  qed
  have fail: "remote_tasks (data (handleSubmit reply e os now w)) = remote_tasks (data w)"
    if "reply \<noteq> None"
  proof -
    from that obtain err where r: "reply = Some err" by auto
    show ?thesis
      using saveTask_rejected [of err e "task_prop w" "taskData (dlg w)" "data w"]
      by (auto simp: rt r saveTask_def updateTask_def addTask_def
          split: sum.splits prod.splits option.splits)
  qed
  show ?thesis using sched create edit fail by blast
qed

theorem handleSubmit_overdue_witness:
  "scheduled (handleSubmit None exampleEnv (Some (js ''n2'')) 1000 overdueWorld) = []
   \<and> (\<exists>row. remote_tasks (data (handleSubmit None exampleEnv (Some (js ''n2'')) 1000
                      overdueWorld)) = [task1, row]
          \<and> task.enable_notification row = Some False
          \<and> task.notification_minutes_before row = None)"
proof -
  have mud: "minutesUntilDue (dlg overdueWorld) = Some (- 10)"
    by (simp add: overdueWorld_def exampleDialog_def minutesUntilDue_def
        differenceInMinutes_def)
  have ov: "(- 10 :: int) \<le> 0" by simp
  have ttl: "trim (dialog.title (dlg overdueWorld)) \<noteq> []"
    by (simp add: overdueWorld_def exampleDialog_def trim_def js_def is_js_whitespace_def)
  have cat: "categoryId (dlg overdueWorld) \<noteq> []"
    by (simp add: overdueWorld_def exampleDialog_def js_def)
  have st: "task_prop overdueWorld = None" "user (data overdueWorld) \<noteq> None"
    "scheduled overdueWorld = []" "remote_tasks (data overdueWorld) = [task1]"
    by (simp_all add: overdueWorld_def exampleApp_def)
  from handleSubmit_overdue [OF mud ov ttl cat, of None exampleEnv "Some (js ''n2'')" 1000]
  show ?thesis using st by auto
qed

subsection \<open>Mutations reload everything\<close>

lemma user_ensureDefaultCategory [simp]: "user (ensureDefaultCategory e uid s) = user s"
  by (simp add: ensureDefaultCategory_def Let_def split: option.splits)

lemma tasks_ensureDefaultCategory [simp]: "tasks (ensureDefaultCategory e uid s) = tasks s"
  by (simp add: ensureDefaultCategory_def Let_def split: option.splits)

lemma loading_ensureDefaultCategory [simp]:
  "app.loading (ensureDefaultCategory e uid s) = app.loading s"
  by (simp add: ensureDefaultCategory_def Let_def split: option.splits)

lemma reloaded_loadData: "reloaded e s (loadData e s)"
  by (simp add: reloaded_def loadData_def Let_def split: option.splits)

lemma reloaded_refreshData: "reloaded e s (refreshData e s)"
  by (simp add: refreshData_def reloaded_loadData)

text \<open>
  Claim C6, as stated, fails when a request of the reload returns no data. A successful
  \<^verbatim>\<open>updateTask\<close> whose reload gets no answer to the request for the tasks leaves the local
  task list as it was, while the remote row has changed. And a successful
  \<^verbatim>\<open>updateCategory\<close> of a user without default category, whose reload gets no answer to the
  request for the categories, leaves the local category list as it was but for the
  default category that \<^verbatim>\<open>ensureDefaultCategory\<close> has inserted and put in front: an
  incremental update.
\<close>

theorem mutations_reload_counterexample:
  "isl (updateTask None staleEnv (js ''t1'') (no_task_updates\<lparr>set_status := Some completed\<rparr>)
          exampleApp) = False
   \<and> remote_tasks (projr (updateTask None staleEnv (js ''t1'')
          (no_task_updates\<lparr>set_status := Some completed\<rparr>) exampleApp))
      = [task1\<lparr>task.status := completed\<rparr>]
   \<and> tasks (projr (updateTask None staleEnv (js ''t1'')
          (no_task_updates\<lparr>set_status := Some completed\<rparr>) exampleApp))
      = [task1]
   \<and> isl (updateCategory None noCategoriesEnv (js ''c1'') rename homeOnly) = False
   \<and> categories (projr (updateCategory None noCategoriesEnv (js ''c1'') rename homeOnly))
      = generalCategory noCategoriesEnv (js ''u1'') # categories homeOnly
   \<and> remote_categories (projr (updateCategory None noCategoriesEnv (js ''c1'') rename homeOnly))
      = [homeCategory\<lparr>category.name := js ''House''\<rparr>,
         generalCategory noCategoriesEnv (js ''u1'')]"
proof -
  have ids: "js ''c0'' \<noteq> js ''c1''" "js ''u1'' \<noteq> js ''u2''" by (simp_all add: js_def)
  have a: "updateTask None staleEnv (js ''t1'') (no_task_updates\<lparr>set_status := Some completed\<rparr>)
          exampleApp
        = Inr (loadData staleEnv
            (exampleApp\<lparr>remote_tasks := [task1\<lparr>task.status := completed\<rparr>]\<rparr>))"
    by (simp add: updateTask_def refreshData_def exampleApp_def task1_def update_task_row_def
        no_task_updates_def orElse_def)
  have b: "tasks (loadData staleEnv
            (exampleApp\<lparr>remote_tasks := [task1\<lparr>task.status := completed\<rparr>]\<rparr>)) = [task1]"
    by (simp add: loadData_def Let_def exampleApp_def staleEnv_def exampleEnv_def)
  have c: "updateCategory None noCategoriesEnv (js ''c1'') rename homeOnly
        = Inr (loadData noCategoriesEnv
            (homeOnly\<lparr>remote_categories :=
                [homeCategory\<lparr>category.name := js ''House''\<rparr>]\<rparr>))"
    by (simp add: updateCategory_def refreshData_def homeOnly_def homeCategory_def
        update_category_row_def safeUpdates_def rename_def orElse_def)
  have d: "ensureDefaultCategory noCategoriesEnv (js ''u1'')
             (homeOnly\<lparr>remote_categories :=
                [homeCategory\<lparr>category.name := js ''House''\<rparr>]\<rparr>)
         = homeOnly\<lparr>remote_categories :=
                [homeCategory\<lparr>category.name := js ''House''\<rparr>,
                 generalCategory noCategoriesEnv (js ''u1'')],
              categories := generalCategory noCategoriesEnv (js ''u1'') # categories homeOnly\<rparr>"
    by (simp add: ensureDefaultCategory_def Let_def homeOnly_def homeCategory_def
        noCategoriesEnv_def exampleEnv_def threw_def maybeSingle_def generalCategory_def)
  have u: "user homeOnly = Some (js ''u1'')" by (simp add: homeOnly_def exampleApp_def)
  have e: "categories (loadData noCategoriesEnv
            (homeOnly\<lparr>remote_categories :=
                [homeCategory\<lparr>category.name := js ''House''\<rparr>]\<rparr>))
         = generalCategory noCategoriesEnv (js ''u1'') # categories homeOnly"
    "remote_categories (loadData noCategoriesEnv
            (homeOnly\<lparr>remote_categories :=
                [homeCategory\<lparr>category.name := js ''House''\<rparr>]\<rparr>))
         = [homeCategory\<lparr>category.name := js ''House''\<rparr>,
            generalCategory noCategoriesEnv (js ''u1'')]"
  proof -
    have r: "categories_select noCategoriesEnv = Failed" "tasks_select noCategoriesEnv = Ok"
      by (simp_all add: noCategoriesEnv_def exampleEnv_def)
    show "categories (loadData noCategoriesEnv
            (homeOnly\<lparr>remote_categories :=
                [homeCategory\<lparr>category.name := js ''House''\<rparr>]\<rparr>))
         = generalCategory noCategoriesEnv (js ''u1'') # categories homeOnly"
      using u by (simp add: loadData_def Let_def d r threw_def)
    show "remote_categories (loadData noCategoriesEnv
            (homeOnly\<lparr>remote_categories :=
                [homeCategory\<lparr>category.name := js ''House''\<rparr>]\<rparr>))
         = [homeCategory\<lparr>category.name := js ''House''\<rparr>,
            generalCategory noCategoriesEnv (js ''u1'')]"
      using u by (simp add: loadData_def Let_def d r threw_def)
  qed
  show ?thesis
    by (simp add: a b c e)
qed

text \<open>
  Claim C6, amended. Each of the six mutations, when it succeeds, has changed the remote
  tables only and ends with \<^verbatim>\<open>refreshData\<close>: its result is \<open>reloaded\<close> from the initial state
  with the request applied to the remote table. The callback of both realtime
  subscriptions and \<^verbatim>\<open>refreshData\<close> itself are such a reload of the current state. For a
  signed-in user a reload replaces each local list by the user's rows of the remote
  table when the request for them answers with data, and leaves it as it was otherwise;
  the only incremental update of a local list is the default category that
  \<^verbatim>\<open>ensureDefaultCategory\<close> puts in front after inserting it. The mutations do succeed when
  the remote service accepts the request (and, for the two that insert, somebody is
  signed in).
\<close>

theorem mutations_reload:
  "(addTask reply e t s = Inr s' \<longrightarrow>
      reply = None
      \<and> (\<exists>uid. user s = Some uid
            \<and> reloaded e
                 (s\<lparr>remote_tasks := remote_tasks s @
                       [inserted_task e uid (length (tasks s)) t]\<rparr>) s'))
   \<and> (updateTask reply e tid updates s = Inr s' \<longrightarrow>
      reply = None
      \<and> reloaded e
           (s\<lparr>remote_tasks :=
                 map (\<lambda>r. if task.id r = tid then update_task_row updates r else r)
                   (remote_tasks s)\<rparr>) s')
   \<and> (deleteTask reply e tid s = Inr s' \<longrightarrow>
      reply = None
      \<and> reloaded e (s\<lparr>remote_tasks := filter (\<lambda>r. task.id r \<noteq> tid) (remote_tasks s)\<rparr>) s')
   \<and> (addCategory reply e nm col s = Inr s' \<longrightarrow>
      reply = None
      \<and> (\<exists>uid. user s = Some uid
            \<and> reloaded e
                 (s\<lparr>remote_categories := remote_categories s @
                       [\<lparr>category.id = fresh_category_id e, name = nm, color = col,
                         user_id = uid, created_at = db_now e, is_default = False\<rparr>]\<rparr>) s'))
   \<and> (updateCategory reply e cid cupdates s = Inr s' \<longrightarrow>
      reply = None
      \<and> reloaded e
           (s\<lparr>remote_categories :=
                 map (\<lambda>c. if category.id c = cid
                           then update_category_row (safeUpdates cupdates) c else c)
                   (remote_categories s)\<rparr>) s')
   \<and> (deleteCategory reply e cid s = Inr s' \<longrightarrow>
      reply = None
      \<and> (\<exists>d rows. find_first category.is_default (categories s) = Some d
            \<and> moveTasks (move_reply e) 0 (filter (\<lambda>t. task.category_id t = cid) (tasks s))
                 (category.id d) (remote_tasks s) = Inr rows
            \<and> reloaded e
                 (s\<lparr>remote_tasks := rows,
                    remote_categories :=
                      filter (\<lambda>c. category.id c \<noteq> cid) (remote_categories s)\<rparr>) s'))
   \<and> reloaded e s (onPostgresChanges tbl e s)
   \<and> reloaded e s (refreshData e s)
   \<and> isl (updateTask None e tid updates s) = False
   \<and> isl (deleteTask None e tid s) = False
   \<and> isl (updateCategory None e cid cupdates s) = False
   \<and> (user s \<noteq> None \<longrightarrow>
        isl (addTask None e t s) = False \<and> isl (addCategory None e nm col s) = False)"
proof -
  have a: "addTask reply e t s = Inr s' \<longrightarrow>
      reply = None
      \<and> (\<exists>uid. user s = Some uid
            \<and> reloaded e
                 (s\<lparr>remote_tasks := remote_tasks s @
                       [inserted_task e uid (length (tasks s)) t]\<rparr>) s')"
    by (auto simp: addTask_def reloaded_refreshData split: option.splits)
  have b: "updateTask reply e tid updates s = Inr s' \<longrightarrow>
      reply = None
      \<and> reloaded e
           (s\<lparr>remote_tasks :=
                 map (\<lambda>r. if task.id r = tid then update_task_row updates r else r)
                   (remote_tasks s)\<rparr>) s'"
    by (auto simp: updateTask_def reloaded_refreshData split: option.splits)
  have c: "deleteTask reply e tid s = Inr s' \<longrightarrow>
      reply = None
      \<and> reloaded e (s\<lparr>remote_tasks := filter (\<lambda>r. task.id r \<noteq> tid) (remote_tasks s)\<rparr>) s'"
    by (auto simp: deleteTask_def reloaded_refreshData split: option.splits)
  have d: "addCategory reply e nm col s = Inr s' \<longrightarrow>
      reply = None
      \<and> (\<exists>uid. user s = Some uid
            \<and> reloaded e
                 (s\<lparr>remote_categories := remote_categories s @
                       [\<lparr>category.id = fresh_category_id e, name = nm, color = col,
                         user_id = uid, created_at = db_now e, is_default = False\<rparr>]\<rparr>) s')"
    by (auto simp: addCategory_def reloaded_refreshData split: option.splits)
  have f: "updateCategory reply e cid cupdates s = Inr s' \<longrightarrow>
      reply = None
      \<and> reloaded e
           (s\<lparr>remote_categories :=
                 map (\<lambda>c. if category.id c = cid
                           then update_category_row (safeUpdates cupdates) c else c)
                   (remote_categories s)\<rparr>) s'"
    by (auto simp: updateCategory_def reloaded_refreshData split: option.splits)
  have g: "deleteCategory reply e cid s = Inr s' \<longrightarrow>
      reply = None
      \<and> (\<exists>d rows. find_first category.is_default (categories s) = Some d
            \<and> moveTasks (move_reply e) 0 (filter (\<lambda>t. task.category_id t = cid) (tasks s))
                 (category.id d) (remote_tasks s) = Inr rows
            \<and> reloaded e
                 (s\<lparr>remote_tasks := rows,
                    remote_categories :=
                      filter (\<lambda>c. category.id c \<noteq> cid) (remote_categories s)\<rparr>) s')"
  proof
    assume ok: "deleteCategory reply e cid s = Inr s'"
    then obtain d rows where "reply = None"
      and "find_first category.is_default (categories s) = Some d"
      and "moveTasks (move_reply e) 0 (filter (\<lambda>t. task.category_id t = cid) (tasks s))
             (category.id d) (remote_tasks s) = Inr rows"
      and "s' = refreshData e
             (s\<lparr>remote_tasks := rows,
                remote_categories :=
                  filter (\<lambda>c. category.id c \<noteq> cid) (remote_categories s)\<rparr>)"
      by (auto simp: deleteCategory_def Let_def
          split: option.splits if_splits sum.splits prod.splits)
    then show "reply = None
      \<and> (\<exists>d rows. find_first category.is_default (categories s) = Some d
            \<and> moveTasks (move_reply e) 0 (filter (\<lambda>t. task.category_id t = cid) (tasks s))
                 (category.id d) (remote_tasks s) = Inr rows
            \<and> reloaded e
                 (s\<lparr>remote_tasks := rows,
                    remote_categories :=
                      filter (\<lambda>c. category.id c \<noteq> cid) (remote_categories s)\<rparr>) s')"
      using reloaded_refreshData by blast
  qed
  have h: "reloaded e s (onPostgresChanges tbl e s)" "reloaded e s (refreshData e s)"
    by (simp_all add: onPostgresChanges_def reloaded_refreshData reloaded_loadData)
  have i: "isl (updateTask None e tid updates s) = False"
    "isl (deleteTask None e tid s) = False"
    "isl (updateCategory None e cid cupdates s) = False"
    "user s \<noteq> None \<longrightarrow>
        isl (addTask None e t s) = False \<and> isl (addCategory None e nm col s) = False"
    by (auto simp: updateTask_def deleteTask_def updateCategory_def addTask_def addCategory_def)
  show ?thesis
    by (rule conjI [OF a conjI [OF b conjI [OF c conjI [OF d conjI [OF f conjI [OF g
        conjI [OF h(1) conjI [OF h(2) conjI [OF i(1) conjI [OF i(2) conjI [OF i(3) i(4)]]]]]]]]]]])
qed

theorem mutations_reload_witness:
  "isl (updateTask None exampleEnv (js ''t1'') (no_task_updates\<lparr>set_status := Some completed\<rparr>)
          exampleApp) = False
   \<and> user (projr (updateTask None exampleEnv (js ''t1'')
          (no_task_updates\<lparr>set_status := Some completed\<rparr>) exampleApp)) = Some (js ''u1'')
   \<and> tasks (projr (updateTask None exampleEnv (js ''t1'')
          (no_task_updates\<lparr>set_status := Some completed\<rparr>) exampleApp))
      = [task1\<lparr>task.status := completed\<rparr>]
   \<and> categories (projr (updateTask None exampleEnv (js ''t1'')
          (no_task_updates\<lparr>set_status := Some completed\<rparr>) exampleApp))
      = exampleCategories"
proof -
  let ?u = "no_task_updates\<lparr>set_status := Some completed\<rparr>"
  obtain s' where s': "updateTask None exampleEnv (js ''t1'') ?u exampleApp = Inr s'"
    by (simp add: updateTask_def)
  have rows: "map (\<lambda>r. if task.id r = js ''t1'' then update_task_row ?u r else r)
                (remote_tasks exampleApp) = [task1\<lparr>task.status := completed\<rparr>]"
    by (simp add: exampleApp_def task1_def update_task_row_def no_task_updates_def orElse_def)
  have "reloaded exampleEnv
          (exampleApp\<lparr>remote_tasks :=
             map (\<lambda>r. if task.id r = js ''t1'' then update_task_row ?u r else r)
               (remote_tasks exampleApp)\<rparr>) s'"
    using mutations_reload [where reply = None and e = exampleEnv and s = exampleApp
        and s' = s' and tid = "js ''t1''" and updates = ?u] s'
    by blast
  then have r: "reloaded exampleEnv (exampleApp\<lparr>remote_tasks := [task1\<lparr>task.status := completed\<rparr>]\<rparr>) s'"
    by (simp only: rows)
  have env: "categories_select exampleEnv = Ok" "tasks_select exampleEnv = Ok"
    "default_select exampleEnv = Ok"
    by (simp_all add: exampleEnv_def)
  have usr: "user exampleApp = Some (js ''u1'')" by (simp add: exampleApp_def)
  have ens: "ensureDefaultCategory exampleEnv (js ''u1'')
               (exampleApp\<lparr>remote_tasks := [task1\<lparr>task.status := completed\<rparr>]\<rparr>)
             = exampleApp\<lparr>remote_tasks := [task1\<lparr>task.status := completed\<rparr>]\<rparr>"
    by (simp add: ensureDefaultCategory_def Let_def env threw_def maybeSingle_def exampleApp_def
        exampleCategories_def)
  have a: "user s' = Some (js ''u1'')"
    using r usr by (simp add: reloaded_def)
  have b: "tasks s' = [task1\<lparr>task.status := completed\<rparr>]"
    using r usr env by (simp add: reloaded_def threw_def select_tasks_def task1_def)
  have "remote_categories s' = exampleCategories"
    using r usr by (simp add: reloaded_def ens) (simp add: exampleApp_def)
  moreover have "categories s' = select_categories (js ''u1'') (remote_categories s')"
    using r usr env by (simp add: reloaded_def)
  ultimately have c: "categories s' = exampleCategories"
    by (simp add: select_categories_def exampleCategories_def)
  show ?thesis by (simp add: s' a b c)
qed

subsection \<open>The default category\<close>




lemma defaults_append [simp]: "defaults uid (xs @ ys) = defaults uid xs @ defaults uid ys"
  by (simp add: defaults_def)






lemma is_default_update_category_row [simp]:
  "category.is_default (update_category_row (safeUpdates u) c) = category.is_default c"
  by (simp add: update_category_row_def safeUpdates_def orElse_def)










subsection \<open>Deleting a category\<close>


lemma find_first_None: "find_first P xs = None \<longleftrightarrow> (\<forall>x \<in> set xs. \<not> P x)"
  by (induction xs) auto





















subsection \<open>Reminders of an edited task\<close>

lemma cancelForTask_filter:
  "cancelForTask ns tid sched =
     filter (\<lambda>m. \<not> (\<exists>n \<in> set ns. data_taskId (content n) = Some tid
                              \<and> identifier' n = identifier' m)) sched"
proof (induction ns arbitrary: sched)
  case Nil
  then show ?case by simp
next
  case (Cons n ns)
  show ?case
    by (auto simp: Cons.IH cancelNotification_def cancelScheduledNotificationAsync_def
        intro: filter_cong)
qed

lemma cancelForTask_none_left:
  "filter (\<lambda>n. data_taskId (content n) = Some tid) (cancelForTask sched tid sched) = []"
  by (auto simp: cancelForTask_filter filter_empty_conv)

lemma scheduleTaskNotification_adds_one:
  "length (filter P (snd (scheduleTaskNotification os now tid ttl due mb sched)))
     \<le> Suc (length (filter P sched))"
  by (auto simp: scheduleTaskNotification_def scheduleNotificationAsync_def
      split: option.splits)

lemma handleSubmit_reconciling_at_most_one:
  assumes "isRegistered w"
    and "saveTaskId reply e (task_prop w) (taskData_reconciling (dlg w)) (data w) = Inr (tid, s')"
    and "tid \<noteq> []"
    and "trim (dialog.title (dlg w)) \<noteq> []" and "categoryId (dlg w) \<noteq> []"
  shows "length (filter (\<lambda>n. data_taskId (content n) = Some tid)
           (scheduled (handleSubmit_reconciling reply e os now w))) \<le> 1"
proof -
  let ?P = "\<lambda>n. data_taskId (content n) = Some tid"
  let ?c = "cancelForTask (getScheduledNotifications (scheduled w)) tid (scheduled w)"
  have c: "filter ?P ?c = []"
    by (simp add: getScheduledNotifications_def cancelForTask_none_left)
  have s: "length (filter ?P (snd (scheduleTaskReminder os now tid ttl due mb ?c))) \<le> 1"
    for ttl due mb
    using scheduleTaskNotification_adds_one [of ?P os now tid ttl due mb ?c] c
    by (simp add: scheduleTaskReminder_def)
  show ?thesis
    using assms c s
    by (auto simp: handleSubmit_reconciling_def Let_def split: option.splits)
qed

lemma handleSubmit_edit_schedules:
  assumes ttl: "trim (dialog.title (dlg w)) \<noteq> []" and cat: "categoryId (dlg w) \<noteq> []"
    and due: "dueDate (dlg w) = Some due"
    and mud: "minutesUntilDue (dlg w) = Some m" and pos: "0 < m"
    and sel: "notificationMinutesBefore (dlg w) < m"
    and en: "enableNotification (dlg w)" and reg: "isRegistered w"
    and ed: "task_prop w = Some t" and tid: "task.id t \<noteq> []"
    and rng: "\<bar>due\<bar> \<le> 8640000000000000"
      "\<bar>due - notificationMinutesBefore (dlg w) * 60000\<bar> \<le> 8640000000000000"
    and fut: "now < due - notificationMinutesBefore (dlg w) * 60000"
  shows "\<exists>c. data_taskId c = Some (task.id t)
           \<and> scheduled (handleSubmit None e (Some nid) now w)
               = scheduled w @
                   [\<lparr>identifier' = nid, content = c,
                     trigger = DateTrigger
                       (DateAt (due - notificationMinutesBefore (dlg w) * 60000))\<rparr>]"
proof -
  have valid: "isNotificationValid (dlg w)"
    using due mud pos sel by (simp add: isNotificationValid_def)
  have nov: "\<not> isOverdue (dlg w)" using mud pos by (simp add: isOverdue_def)
  have sid: "task.id (spread t td) = task.id t" for td
    by (simp add: spread_def)
  show ?thesis
    using ttl cat due mud pos en reg ed tid fut valid nov
    by (simp add: handleSubmit_def Let_def saveTask_edit sid scheduleTaskReminder_def
        scheduleTaskNotification_def scheduleNotificationAsync_def
        triggerDate_exact [OF rng] date_le_def)
qed

text \<open>
  Claim C3 does not hold for the final variant, which never cancels a pending request.
  Editing the task \<open>t1\<close>, which has the pending reminder \<open>n1\<close>, with notifications
  registered, the toggle on and a valid lead time leaves \<open>n1\<close> in place and adds \<open>n2\<close>:
  two reminders for one task. (The earlier variant satisfies the claim, as
  \<open>handleSubmit_reconciling_at_most_one\<close> shows.)
\<close>

theorem handleSubmit_edit_keeps_old_reminder:
  "map (\<lambda>n. (identifier' n, data_taskId (content n), trigger n))
     (scheduled (handleSubmit None exampleEnv (Some (js ''n2'')) 1000 editWorld))
   = [(js ''n1'', Some (js ''t1''), DateTrigger (DateAt 1800000)),
      (js ''n2'', Some (js ''t1''), DateTrigger (DateAt 1800000))]"
proof -
  have ttl: "trim (dialog.title (dlg editWorld)) \<noteq> []"
    by (simp add: editWorld_def exampleDialog2_def trim_def js_def is_js_whitespace_def)
  have cat: "categoryId (dlg editWorld) \<noteq> []"
    by (simp add: editWorld_def exampleDialog2_def js_def)
  have due: "dueDate (dlg editWorld) = Some 3600000"
    by (simp add: editWorld_def exampleDialog2_def)
  have mud: "minutesUntilDue (dlg editWorld) = Some 60"
    by (simp add: editWorld_def exampleDialog2_def minutesUntilDue_def differenceInMinutes_def)
  have sel: "notificationMinutesBefore (dlg editWorld) = 30"
    by (simp add: editWorld_def exampleDialog2_def)
  have en: "enableNotification (dlg editWorld)" "isRegistered editWorld"
    "task_prop editWorld = Some task1" "task.id task1 = js ''t1''"
    "scheduled editWorld = [reminder1]"
    by (simp_all add: editWorld_def exampleDialog2_def task1_def)
  have tid: "task.id task1 \<noteq> []" by (simp add: task1_def js_def)
  from handleSubmit_edit_schedules [OF ttl cat due mud _ _ en(1) en(2) en(3) tid,
      of 1000 exampleEnv "js ''n2''"]
  obtain c where "data_taskId c = Some (js ''t1'')"
    and "scheduled (handleSubmit None exampleEnv (Some (js ''n2'')) 1000 editWorld)
          = [reminder1, \<lparr>identifier' = js ''n2'', content = c,
                          trigger = DateTrigger (DateAt 1800000)\<rparr>]"
    by (auto simp: sel en)
  then show ?thesis by (simp add: reminder1_def)
qed

end
